theory Spec2Isabelle
  imports Complex_Main
begin

section \<open>HTTP errors\<close>

text \<open>
  The handlers throw \<^verbatim>\<open>new customHttpError(StatusCodes.X, messages.KEY)\<close>. A thrown
  error is the \<open>Inl\<close> branch of a sum. The status codes are those of the
  \<^verbatim>\<open>http-status-codes\<close> package. The message tables of the folder and auth modules
  are not part of the sources at hand, so a message is kept as the key the handler names.
\<close>

definition OK :: nat where "OK = 200"
definition BAD_REQUEST :: nat where "BAD_REQUEST = 400"
definition UNAUTHORIZED :: nat where "UNAUTHORIZED = 401"
definition NOT_FOUND :: nat where "NOT_FOUND = 404"
definition INTERNAL_SERVER_ERROR :: nat where "INTERNAL_SERVER_ERROR = 500"

datatype exceptionMessage =
    folder_INVALID_ID
  | folder_NAME_REQUIRED
  | folder_SORT_INVALID
  | folder_FOLDER_NOT_FOUND
  | image_IMAGE_NOT_FOUND
  | chip_INVALID_ID
  | chip_NAME_REQUIRED
  | chip_CHIP_NOT_FOUND
  | auth_INVALID_CREDENTIALS
  | store_ERROR

datatype customHttpError = customHttpError (statusCode: nat) (message: exceptionMessage)

section \<open>Password utilities (utils/bcrypt.ts)\<close>

text \<open>
  \<^verbatim>\<open>bcrypt.compare\<close> is the hashing primitive of an external package; it is the
  parameter \<open>compare\<close>. \<^verbatim>\<open>isMatchingPassword\<close> throws when the comparison is false
  and returns nothing otherwise.
\<close>

definition isMatchingPassword ::
  "(string \<Rightarrow> string \<Rightarrow> bool) \<Rightarrow> string \<Rightarrow> string \<Rightarrow> customHttpError + unit" where
  "isMatchingPassword compare password hashed_password =
     (let isMatch = compare password hashed_password
      in if \<not> isMatch then Inl (customHttpError UNAUTHORIZED auth_INVALID_CREDENTIALS)
         else Inr ())"


section \<open>JavaScript built-ins used by the handlers\<close>

text \<open>
  A JavaScript string is modelled by the bytes of its UTF-8 encoding, so a character
  beyond ASCII is two to four \<open>char\<close>s. \<open>codePointAt\<close> reads the code point at the
  head of a string and the number of bytes it takes; \<open>isWhiteSpace\<close> is the table of
  white space and line terminator code points that \<^verbatim>\<open>parseInt\<close> and \<^verbatim>\<open>parseFloat\<close>
  skip at the start of their argument.
\<close>

definition isWhiteSpace :: "int \<Rightarrow> bool" where
  "isWhiteSpace cp =
     (cp \<in> set [0x09, 0x0A, 0x0B, 0x0C, 0x0D, 0x20, 0xA0, 0x1680, 0x2028, 0x2029, 0x202F,
                0x205F, 0x3000, 0xFEFF]
      \<or> (0x2000 \<le> cp \<and> cp \<le> 0x200A))"

definition continuation :: "char \<Rightarrow> int option" where
  \<comment> \<open>the six payload bits of a UTF-8 continuation byte\<close>
  "continuation c =
     (let n = (of_char c :: int) in if 0x80 \<le> n \<and> n < 0xC0 then Some (n - 0x80) else None)"

definition codePointAt :: "string \<Rightarrow> (int \<times> nat) option" where
  "codePointAt s =
     (case s of
        [] \<Rightarrow> None
      | a # r \<Rightarrow>
          (let x = (of_char a :: int)
           in if x < 0x80 then Some (x, 1)
              else if 0xC0 \<le> x \<and> x < 0xE0 then
                (case map continuation (take 1 r) of
                   [Some y] \<Rightarrow> Some ((x - 0xC0) * 64 + y, 2)
                 | _ \<Rightarrow> None)
              else if 0xE0 \<le> x \<and> x < 0xF0 then
                (case map continuation (take 2 r) of
                   [Some y, Some z] \<Rightarrow> Some (((x - 0xE0) * 64 + y) * 64 + z, 3)
                 | _ \<Rightarrow> None)
              else if 0xF0 \<le> x \<and> x < 0xF8 then
                (case map continuation (take 3 r) of
                   [Some y, Some z, Some w] \<Rightarrow> Some ((((x - 0xF0) * 64 + y) * 64 + z) * 64 + w, 4)
                 | _ \<Rightarrow> None)
              else None))"

fun skipWhiteSpace :: "nat \<Rightarrow> string \<Rightarrow> string" where
  \<comment> \<open>the first argument counts the bytes still to drop of a white space character\<close>
  "skipWhiteSpace k [] = []"
| "skipWhiteSpace (Suc k) (c # cs) = skipWhiteSpace k cs"
| "skipWhiteSpace 0 (c # cs) =
     (case codePointAt (c # cs) of
        Some (cp, n) \<Rightarrow> if isWhiteSpace cp then skipWhiteSpace (n - 1) cs else c # cs
      | None \<Rightarrow> c # cs)"

definition trimStart :: "string \<Rightarrow> string" where
  "trimStart s = skipWhiteSpace 0 s"

text \<open>
  A number is \<^verbatim>\<open>NaN\<close>, an infinity with its sign (\<open>True\<close> for the negative one), or
  finite. \<open>numberOfInteger\<close> is the number value of an integer given by its sign and
  magnitude: the magnitude itself when it has at most 53 bits, else the nearest multiple
  of the power of two that leaves 53 bits (ties to the even one), and an infinity when
  that has more than 1024 bits.
\<close>

datatype number = NaN | Infinity bool | Finite rat

function bitLength :: "int \<Rightarrow> nat" where
  "bitLength n = (if n \<le> 0 then 0 else Suc (bitLength (n div 2)))"
  by pat_completeness auto
termination
  by (relation "measure nat") auto

definition roundToDouble :: "int \<Rightarrow> int option" where
  \<comment> \<open>\<open>None\<close> when the rounded magnitude is beyond the largest double\<close>
  "roundToDouble m =
     (if bitLength m \<le> 53 then Some m
      else
        (let e = bitLength m - 53;
             q = m div 2 ^ e;
             r = m mod 2 ^ e;
             q' = (if 2 ^ e < 2 * r \<or> (2 * r = 2 ^ e \<and> odd q) then q + 1 else q);
             v = q' * 2 ^ e
         in if bitLength v \<le> 1024 then Some v else None))"

definition numberOfInteger :: "bool \<Rightarrow> int \<Rightarrow> number" where
  "numberOfInteger neg m =
     (case roundToDouble m of
        None \<Rightarrow> Infinity neg
      | Some v \<Rightarrow> Finite ((if neg then - 1 else 1) * of_int v))"

definition integerOf :: "number \<Rightarrow> int option" where
  \<comment> \<open>the integer a number is, when it is one\<close>
  "integerOf x =
     (case x of
        Finite v \<Rightarrow> if v = of_int \<lfloor>v\<rfloor> then Some \<lfloor>v\<rfloor> else None
      | _ \<Rightarrow> None)"

text \<open>
  \<^verbatim>\<open>parseInt(string)\<close> without a radix: leading white space is skipped, then an optional
  sign, then an optional \<^verbatim>\<open>0x\<close> prefix (radix 16), then the longest run of digits of
  the radix is read; no digit at all gives \<^verbatim>\<open>NaN\<close>, and text after the digits is
  ignored. The result is the number value of the integer read.
\<close>

definition digitValue :: "char \<Rightarrow> nat option" where
  "digitValue c =
     (let n = (of_char c :: nat)
      in if 48 \<le> n \<and> n \<le> 57 then Some (n - 48)
         else if 97 \<le> n \<and> n \<le> 122 then Some (n - 87)
         else if 65 \<le> n \<and> n \<le> 90 then Some (n - 55)
         else None)"

definition isRadixDigit :: "nat \<Rightarrow> char \<Rightarrow> bool" where
  "isRadixDigit radix c = (case digitValue c of Some d \<Rightarrow> d < radix | None \<Rightarrow> False)"

fun digitsValue :: "nat \<Rightarrow> int \<Rightarrow> string \<Rightarrow> int" where
  "digitsValue radix acc [] = acc"
| "digitsValue radix acc (c # cs) =
     digitsValue radix (acc * int radix + (case digitValue c of Some d \<Rightarrow> int d | None \<Rightarrow> 0)) cs"

definition stripSign :: "string \<Rightarrow> bool \<times> string" where
  "stripSign s =
     (case s of
        [] \<Rightarrow> (False, [])
      | c # cs \<Rightarrow> if c = CHR ''-'' then (True, cs)
                  else if c = CHR ''+'' then (False, cs)
                  else (False, s))"

definition stripHexPrefix :: "string \<Rightarrow> nat \<times> string" where
  "stripHexPrefix s =
     (case s of
        a # b # cs \<Rightarrow> if a = CHR ''0'' \<and> (b = CHR ''x'' \<or> b = CHR ''X'') then (16, cs) else (10, s)
      | _ \<Rightarrow> (10, s))"

definition parseInt :: "string \<Rightarrow> number" where
  "parseInt str =
     (let (neg, s) = stripSign (trimStart str);
          (radix, t) = stripHexPrefix s;
          z = takeWhile (isRadixDigit radix) t
      in if z = [] then NaN
         else numberOfInteger neg (digitsValue radix 0 z))"

text \<open>
  \<^verbatim>\<open>parseFloat(string)\<close>: leading white space is skipped and the longest prefix that is
  a decimal literal is read: an optional sign, then \<^verbatim>\<open>Infinity\<close> or digits with an
  optional fraction and an optional exponent (an exponent needs at least one digit). No
  such prefix gives \<^verbatim>\<open>NaN\<close>. A finite result carries the exact value of the literal.
\<close>

definition scale10 :: "rat \<Rightarrow> int \<Rightarrow> rat" where
  "scale10 v k = (if 0 \<le> k then v * 10 ^ nat k else v / 10 ^ nat (- k))"

definition exponentPart :: "string \<Rightarrow> int" where
  "exponentPart s =
     (case s of
        [] \<Rightarrow> 0
      | c # cs \<Rightarrow>
          if c = CHR ''e'' \<or> c = CHR ''E'' then
            (let (neg, ds) = stripSign cs; z = takeWhile (isRadixDigit 10) ds
             in if z = [] then 0 else (if neg then - 1 else 1) * digitsValue 10 0 z)
          else 0)"

definition parseFloat :: "string \<Rightarrow> number" where
  "parseFloat str =
     (let (neg, s) = stripSign (trimStart str)
      in if take 8 s = ''Infinity'' then Infinity neg
         else
           (let ip = takeWhile (isRadixDigit 10) s;
                r1 = dropWhile (isRadixDigit 10) s;
                (fp, r2) = (case r1 of
                              [] \<Rightarrow> ([], [])
                            | c # cs \<Rightarrow> if c = CHR ''.''
                                        then (takeWhile (isRadixDigit 10) cs, dropWhile (isRadixDigit 10) cs)
                                        else ([], r1))
            in if ip = [] \<and> fp = [] then NaN
               else Finite (scale10 ((if neg then - 1 else 1) * of_int (digitsValue 10 0 (ip @ fp)))
                                    (exponentPart r2 - int (length fp)))))"

text \<open>
  \<^verbatim>\<open>!x\<close> on a number: \<^verbatim>\<open>NaN\<close> and zero are falsy. A literal is the number zero
  when its value rounds to zero as a double, that is when its magnitude is at most
  \<open>2^-1075\<close> (half the least positive double, ties to even). \<open>truthyInt\<close> is the same
  test on a body field that holds an integer or is absent.
\<close>

definition truthyNumber :: "number \<Rightarrow> bool" where
  "truthyNumber x = (case x of NaN \<Rightarrow> False | Infinity _ \<Rightarrow> True | Finite v \<Rightarrow> 1 / 2 ^ 1075 < \<bar>v\<bar>)"

definition truthyInt :: "int option \<Rightarrow> bool" where
  \<comment> \<open>an integer field of the body, \<open>None\<close> for \<^verbatim>\<open>undefined\<close>\<close>
  "truthyInt x = (case x of None \<Rightarrow> False | Some n \<Rightarrow> n \<noteq> 0)"

definition truthyString :: "string option \<Rightarrow> bool" where
  \<comment> \<open>a string, \<open>None\<close> for \<^verbatim>\<open>undefined\<close>: the empty string is falsy\<close>
  "truthyString x = (case x of None \<Rightarrow> False | Some s \<Rightarrow> s \<noteq> [])"

definition isNaN :: "number \<Rightarrow> bool" where
  "isNaN x = (x = NaN)"

section \<open>Tables\<close>

text \<open>
  The relational store is a record of its tables, each a list of rows in insertion order.
  \<open>folder_row\<close> has the columns the folder code reads and writes; \<open>f_folder_id\<close>
  is the nullable parent pointer. \<open>FolderModel\<close> is the object the code passes around:
  a key that is absent from the object is \<open>None\<close> (for the nullable \<^verbatim>\<open>folder_id\<close>
  and \<^verbatim>\<open>image_url\<close>, \<open>Some None\<close> is \<^verbatim>\<open>null\<close>).
\<close>

record folder_row =
  f_id :: int
  f_name :: string
  f_image_id :: int
  f_user_id :: int
  f_folder_id :: "int option"
  f_isdeleted :: bool
  f_created_by :: string
  f_updated_by :: string

record image_row =
  i_id :: int
  i_url :: string
  i_type :: string
  i_name :: string
  i_isdeleted :: bool
  i_created_by :: string
  i_updated_by :: string

record database =
  folders :: "folder_row list"
  images :: "image_row list"

record FolderModel =
  m_id :: "int option"
  m_name :: "string option"
  m_image_id :: "int option"
  m_user_id :: "int option"
  m_folder_id :: "int option option"
  m_isdeleted :: "bool option"
  m_created_by :: "string option"
  m_updated_by :: "string option"
  m_image_url :: "string option option"

record ImageModel =
  im_url :: string
  im_type :: string
  im_name :: string
  im_isdeleted :: bool

definition nextId :: "int list \<Rightarrow> int" where
  \<comment> \<open>the key an auto-increment column gives a new row: above every key in the table\<close>
  "nextId ids = fold max ids 0 + 1"

section \<open>Folder repository (entities/folder/folder.repository.ts)\<close>

definition leftJoinImages :: "database \<Rightarrow> (folder_row \<times> image_row option) list" where
  \<comment> \<open>\<^verbatim>\<open>knex('folders').leftJoin('images', 'folders.image_id', 'images.id')\<close>\<close>
  "leftJoinImages db =
     concat (map (\<lambda>f. let ms = filter (\<lambda>i. i_id i = f_image_id f) (images db)
                         in if ms = [] then [(f, None)] else map (\<lambda>i. (f, Some i)) ms)
                 (folders db))"

definition selectColumns :: "folder_row \<times> image_row option \<Rightarrow> FolderModel" where
  \<comment> \<open>the six selected columns, \<^verbatim>\<open>images.url as image_url\<close> the last\<close>
  "selectColumns fi =
     (case fi of (f, i) \<Rightarrow>
        \<lparr> m_id = Some (f_id f), m_name = Some (f_name f), m_image_id = Some (f_image_id f),
          m_user_id = Some (f_user_id f), m_folder_id = Some (f_folder_id f),
          m_isdeleted = None, m_created_by = None, m_updated_by = None,
          m_image_url = Some (map_option i_url i) \<rparr>)"

definition fetchAllParent :: "database \<Rightarrow> int \<Rightarrow> FolderModel list" where
  "fetchAllParent db user_id =
     map selectColumns
       (filter (\<lambda>(f, i). f_user_id f = user_id \<and> f_folder_id f = None \<and> f_isdeleted f = False)
               (leftJoinImages db))"

definition fetchAllNested :: "database \<Rightarrow> int \<Rightarrow> int \<Rightarrow> FolderModel list" where
  "fetchAllNested db user_id parentFolderId =
     map selectColumns
       (filter (\<lambda>(f, i). f_user_id f = user_id \<and> f_folder_id f = Some parentFolderId
                          \<and> f_isdeleted f = False)
               (leftJoinImages db))"

definition fetchById :: "database \<Rightarrow> int \<Rightarrow> FolderModel option" where
  \<comment> \<open>\<^verbatim>\<open>.first()\<close>: the first matching row, \<^verbatim>\<open>undefined\<close> (\<open>None\<close>) when there is none\<close>
  "fetchById db folderId =
     (case map selectColumns
             (filter (\<lambda>(f, i). f_id f = folderId \<and> f_isdeleted f = False) (leftJoinImages db)) of
        [] \<Rightarrow> None
      | r # _ \<Rightarrow> Some r)"

definition create :: "database \<Rightarrow> FolderModel \<Rightarrow> customHttpError + (int \<times> database)" where
  \<comment> \<open>\<^verbatim>\<open>insert(folderData).returning('id')\<close>. The table's migration is not in the sources:
      \<^verbatim>\<open>name\<close>, \<^verbatim>\<open>image_id\<close>, \<^verbatim>\<open>user_id\<close> and the audit columns are taken as required
      (an insert without one of them is a store error), \<^verbatim>\<open>isdeleted\<close> defaults to false,
      and there is no \<^verbatim>\<open>image_url\<close> column.\<close>
  "create db folderData =
     (case (m_name folderData, m_image_id folderData, m_user_id folderData,
            m_created_by folderData, m_updated_by folderData, m_image_url folderData) of
        (Some n, Some im, Some u, Some cb, Some ub, None) \<Rightarrow>
          (let new_id = (case m_id folderData of Some i \<Rightarrow> i
                         | None \<Rightarrow> nextId (map f_id (folders db)));
               row = \<lparr> f_id = new_id, f_name = n, f_image_id = im, f_user_id = u,
                       f_folder_id = (case m_folder_id folderData of Some p \<Rightarrow> p | None \<Rightarrow> None),
                       f_isdeleted = (case m_isdeleted folderData of Some d \<Rightarrow> d | None \<Rightarrow> False),
                       f_created_by = cb, f_updated_by = ub \<rparr>
           in Inr (new_id, db\<lparr>folders := folders db @ [row]\<rparr>))
      | _ \<Rightarrow> Inl (customHttpError INTERNAL_SERVER_ERROR store_ERROR))"

definition setColumns :: "FolderModel \<Rightarrow> folder_row \<Rightarrow> folder_row" where
  \<comment> \<open>the \<^verbatim>\<open>SET\<close> clause of an update: one assignment per key present in the object\<close>
  "setColumns d f =
     \<lparr> f_id = (case m_id d of Some v \<Rightarrow> v | None \<Rightarrow> f_id f),
       f_name = (case m_name d of Some v \<Rightarrow> v | None \<Rightarrow> f_name f),
       f_image_id = (case m_image_id d of Some v \<Rightarrow> v | None \<Rightarrow> f_image_id f),
       f_user_id = (case m_user_id d of Some v \<Rightarrow> v | None \<Rightarrow> f_user_id f),
       f_folder_id = (case m_folder_id d of Some v \<Rightarrow> v | None \<Rightarrow> f_folder_id f),
       f_isdeleted = (case m_isdeleted d of Some v \<Rightarrow> v | None \<Rightarrow> f_isdeleted f),
       f_created_by = (case m_created_by d of Some v \<Rightarrow> v | None \<Rightarrow> f_created_by f),
       f_updated_by = (case m_updated_by d of Some v \<Rightarrow> v | None \<Rightarrow> f_updated_by f) \<rparr>"

definition update :: "database \<Rightarrow> FolderModel \<Rightarrow> int \<Rightarrow> customHttpError + (nat \<times> database)" where
  \<comment> \<open>\<^verbatim>\<open>knex('folders').where('id', folderId).update(folderData)\<close>: the number of rows
      changed; a key that is no column (\<^verbatim>\<open>image_url\<close>) is a store error.\<close>
  "update db folderData folderId =
     (if m_image_url folderData \<noteq> None then Inl (customHttpError INTERNAL_SERVER_ERROR store_ERROR)
      else Inr (length (filter (\<lambda>f. f_id f = folderId) (folders db)),
                db\<lparr>folders := map (\<lambda>f. if f_id f = folderId then setColumns folderData f else f)
                                     (folders db)\<rparr>))"

definition remove :: "database \<Rightarrow> int \<Rightarrow> nat \<times> database" where
  \<comment> \<open>\<^verbatim>\<open>knex('folders').where('id', folderId).update('isdeleted', true)\<close>\<close>
  "remove db folderId =
     (length (filter (\<lambda>f. f_id f = folderId) (folders db)),
      db\<lparr>folders := map (\<lambda>f. if f_id f = folderId then f\<lparr>f_isdeleted := True\<rparr> else f)
                           (folders db)\<rparr>)"

section \<open>Service functions the controllers call\<close>

text \<open>
  The files \<^verbatim>\<open>folder.service\<close> and \<^verbatim>\<open>image.service\<close> are imported by the controller
  but are not among the sources. Their functions are written here from the specification.
  A controller hands a service the number it got from \<^verbatim>\<open>parseInt\<close>; the repository
  functions are on integer keys, and a number that is no integer (an infinity) names no row.
\<close>

definition findAllFolders :: "database \<Rightarrow> int \<Rightarrow> FolderModel list" where
  \<comment> \<open>Modelled from the spec: \<^verbatim>\<open>findAllFolders\<close> of folder.service is missing;
      listRootFolders returns the folders whose parent is null and that are not soft-deleted,
      and never fails.\<close>
  "findAllFolders db user_id = fetchAllParent db user_id"

definition findAllNestedFolders ::
  "database \<Rightarrow> int \<Rightarrow> number \<Rightarrow> customHttpError + FolderModel list" where
  \<comment> \<open>Modelled from the spec: \<^verbatim>\<open>findAllNestedFolders\<close> of folder.service is missing;
      listChildFolders is the same filter with parent = parentId; parentId must be a
      positive integer, else it fails with InvalidArgument.\<close>
  "findAllNestedFolders db user_id parentFolderId =
     (case integerOf parentFolderId of
        None \<Rightarrow> Inl (customHttpError BAD_REQUEST folder_INVALID_ID)
      | Some n \<Rightarrow> if 0 < n then Inr (fetchAllNested db user_id n)
                  else Inl (customHttpError BAD_REQUEST folder_INVALID_ID))"

definition findFolderById :: "database \<Rightarrow> number \<Rightarrow> customHttpError + FolderModel" where
  \<comment> \<open>Modelled from the spec: \<^verbatim>\<open>findFolderById\<close> of folder.service is missing;
      getFolder returns a single row or fails with NotFound.\<close>
  "findFolderById db folderId =
     (case integerOf folderId of
        None \<Rightarrow> Inl (customHttpError NOT_FOUND folder_FOLDER_NOT_FOUND)
      | Some n \<Rightarrow>
          (case fetchById db n of
             None \<Rightarrow> Inl (customHttpError NOT_FOUND folder_FOLDER_NOT_FOUND)
           | Some r \<Rightarrow> Inr r))"

definition addFolders :: "database \<Rightarrow> FolderModel \<Rightarrow> customHttpError + (int \<times> database)" where
  \<comment> \<open>Modelled from the spec: \<^verbatim>\<open>addFolders\<close> of folder.service is missing;
      createFolder inserts the row and returns the generated id.\<close>
  "addFolders db folderData = create db folderData"

definition updateFolder ::
  "database \<Rightarrow> FolderModel \<Rightarrow> number \<Rightarrow> customHttpError + (nat \<times> database)" where
  \<comment> \<open>Modelled from the spec: \<^verbatim>\<open>updateFolder\<close> of folder.service is missing;
      updateFolder persists the merged row and fails with NotFound if the folder is missing.\<close>
  "updateFolder db folderData folderId =
     (case integerOf folderId of
        None \<Rightarrow> Inl (customHttpError NOT_FOUND folder_FOLDER_NOT_FOUND)
      | Some n \<Rightarrow> update db folderData n)"

definition removeFolder :: "database \<Rightarrow> number \<Rightarrow> customHttpError + (nat \<times> database)" where
  \<comment> \<open>Modelled from the spec: \<^verbatim>\<open>removeFolder\<close> of folder.service is missing;
      deleteFolder sets the soft-delete flag and requires a prior existence check, failing
      with NotFound otherwise.\<close>
  "removeFolder db folderId =
     (case integerOf folderId of
        None \<Rightarrow> Inl (customHttpError NOT_FOUND folder_FOLDER_NOT_FOUND)
      | Some n \<Rightarrow>
          (case fetchById db n of
             None \<Rightarrow> Inl (customHttpError NOT_FOUND folder_FOLDER_NOT_FOUND)
           | Some _ \<Rightarrow> Inr (remove db n)))"

definition findImage :: "database \<Rightarrow> int \<Rightarrow> customHttpError + image_row" where
  \<comment> \<open>Modelled from the spec: \<^verbatim>\<open>findImage\<close> of image.service is missing; a read
      of one entity filters on the soft-delete flag and fails with NotFound when there is
      no such row (\<^verbatim>\<open>isImage\<close> catches that failure).\<close>
  "findImage db imageId =
     (case filter (\<lambda>i. i_id i = imageId \<and> i_isdeleted i = False) (images db) of
        [] \<Rightarrow> Inl (customHttpError NOT_FOUND image_IMAGE_NOT_FOUND)
      | i # _ \<Rightarrow> Inr i)"

definition saveImage :: "database \<Rightarrow> ImageModel \<Rightarrow> string \<Rightarrow> image_row \<times> database" where
  \<comment> \<open>Modelled from the spec: \<^verbatim>\<open>saveImage\<close> of image.service is missing; it
      stores the image row as given, with the user name in the audit columns, and returns
      the row with its generated id.\<close>
  "saveImage db imageData username =
     (let row = \<lparr> i_id = nextId (map i_id (images db)), i_url = im_url imageData,
                   i_type = im_type imageData, i_name = im_name imageData,
                   i_isdeleted = im_isdeleted imageData,
                   i_created_by = username, i_updated_by = username \<rparr>
      in (row, db\<lparr>images := images db @ [row]\<rparr>))"

section \<open>Folder controller\<close>

text \<open>
  A request carries the path parameter \<^verbatim>\<open>req.params.id\<close>, the body fields the handlers
  read, the authenticated user the token middleware put in the body, the uploaded file
  if there is one, and the query parameters. A handler returns what it sends as
  \<^verbatim>\<open>data\<close> with status 200, or the error it throws, together with the store as it
  leaves it: a row written before a later failure stays written.
  \<^verbatim>\<open>uploadImage\<close> (the external image storage) and \<^verbatim>\<open>crypto.randomUUID()\<close> are
  parameters.
\<close>

record user_ctx =
  u_id :: int
  u_username :: string

record upload_file =
  path :: string
  filename :: string

record request =
  params_id :: string
  body_name :: "string option"
  body_folder_id :: "int option"
  body_image_id :: "int option"
  body_user :: user_ctx
  req_file :: "upload_file option"
  query_sort :: "string option"
  query_folder_id :: "string option"
  query_order :: "string option"

definition default_image_url :: string where
  "default_image_url =
     ''https://res.cloudinary.com/dxsqdqnoe/image/upload/v1709878273/litmark/xo5sncdhybhemuvacf4u.png''"

definition isImage :: "string \<Rightarrow> database \<Rightarrow> string \<Rightarrow> int \<times> database" where
  "isImage uuid db username =
     (case findImage db 1 of
        Inr _ \<Rightarrow> (1, db)
      | Inl _ \<Rightarrow>
          (let imageName = uuid;
               (image, db') = saveImage db \<lparr> im_url = default_image_url, im_type = ''folder'',
                                             im_name = imageName, im_isdeleted = False \<rparr> username
           in (i_id image, db')))"

definition getAllTopFolders :: "database \<Rightarrow> request \<Rightarrow> FolderModel list" where
  "getAllTopFolders db req = findAllFolders db (u_id (body_user req))"

definition getAllnestedFolders :: "database \<Rightarrow> request \<Rightarrow> customHttpError + FolderModel list" where
  "getAllnestedFolders db req =
     (let parentFolderId = parseInt (params_id req)
      in if isNaN parentFolderId then Inl (customHttpError BAD_REQUEST folder_INVALID_ID)
         else findAllNestedFolders db (u_id (body_user req)) parentFolderId)"

definition postFolders ::
  "(string \<Rightarrow> string) \<Rightarrow> string \<Rightarrow> database \<Rightarrow> request \<Rightarrow> (customHttpError + int) \<times> database" where
  "postFolders uploadImage uuid db req =
     (let name = body_name req; folder_id = body_folder_id req; user = body_user req;
          (req1, db1) =
            (case req_file req of
               Some fl \<Rightarrow>
                 (let imagePath = path fl;
                      imageUrl = uploadImage imagePath;
                      (image, db') = saveImage db \<lparr> im_url = imageUrl, im_type = ''folder'',
                                                    im_name = filename fl, im_isdeleted = False \<rparr>
                                       (u_username user)
                  in (req\<lparr>body_image_id := Some (i_id image)\<rparr>, db'))
             | None \<Rightarrow> (req, db));
          (image_id, db2) = isImage uuid db1 (u_username user);
          folderData = \<lparr> m_id = None, m_name = name, m_image_id = Some image_id,
                         m_user_id = Some (u_id user),
                         m_folder_id = Some (if truthyInt folder_id then folder_id else None),
                         m_isdeleted = Some False,
                         m_created_by = Some (u_username user),
                         m_updated_by = Some (u_username user),
                         m_image_url = None \<rparr>
      in case addFolders db2 folderData of
           Inl e \<Rightarrow> (Inl e, db2)
         | Inr (result, db3) \<Rightarrow> (Inr result, db3))"

definition patchFolders ::
  "(string \<Rightarrow> string) \<Rightarrow> database \<Rightarrow> request \<Rightarrow> (customHttpError + nat) \<times> database" where
  "patchFolders uploadImage db req =
     (let folderId = parseInt (params_id req)
      in if \<not> truthyNumber folderId \<or> isNaN folderId
         then (Inl (customHttpError BAD_REQUEST folder_INVALID_ID), db)
         else
           (let name = body_name req; user = body_user req
            in if \<not> truthyString name
               then (Inl (customHttpError BAD_REQUEST folder_NAME_REQUIRED), db)
               else
                 (let (req1, db1) =
                        (case req_file req of
                           Some fl \<Rightarrow>
                             (let imagePath = path fl;
                                  imageUrl = uploadImage imagePath;
                                  (image, db') = saveImage db \<lparr> im_url = imageUrl, im_type = ''user'',
                                                                im_name = filename fl,
                                                                im_isdeleted = False \<rparr>
                                                   (u_username user)
                              in (req\<lparr>body_image_id := Some (i_id image)\<rparr>, db'))
                         | None \<Rightarrow> (req, db))
                  in case findFolderById db1 folderId of
                       Inl e \<Rightarrow> (Inl e, db1)
                     | Inr found \<Rightarrow>
                         (let currentFolder = found\<lparr>m_image_url := None\<rparr>;
                              curretImage = m_image_id currentFolder;
                              folderData = currentFolder
                                \<lparr> m_name := name,
                                  m_image_id := (if truthyInt (body_image_id req1)
                                                 then body_image_id req1 else curretImage),
                                  m_updated_by := Some (u_username user) \<rparr>
                          in case updateFolder db1 folderData folderId of
                               Inl e \<Rightarrow> (Inl e, db1)
                             | Inr (result, db2) \<Rightarrow> (Inr result, db2)))))"

definition deleteFolders :: "database \<Rightarrow> request \<Rightarrow> (customHttpError + unit) \<times> database" where
  "deleteFolders db req =
     (let folderId = parseInt (params_id req)
      in if \<not> truthyNumber folderId \<or> isNaN folderId
         then (Inl (customHttpError BAD_REQUEST folder_INVALID_ID), db)
         else case removeFolder db folderId of
                Inl e \<Rightarrow> (Inl e, db)
              | Inr (_, db') \<Rightarrow> (Inr (), db'))"


section \<open>Chip controller\<close>

text \<open>
  \<^verbatim>\<open>findChipById\<close>, \<^verbatim>\<open>updateChip\<close> and \<^verbatim>\<open>removeChip\<close> come from chip.service,
  which is not among the sources: they are parameters of the handlers. The chip id the
  handlers pass on is the number \<^verbatim>\<open>parseFloat\<close> returned.
\<close>

record ChipModel =
  c_id :: int
  c_name :: string
  c_user_id :: int
  c_folder_id :: int
  c_isdeleted :: bool
  c_created_by :: string
  c_updated_by :: string

definition patchChip ::
  "(number \<Rightarrow> customHttpError + ChipModel option) \<Rightarrow>
   (ChipModel \<Rightarrow> number \<Rightarrow> customHttpError + 'r) \<Rightarrow> request \<Rightarrow> customHttpError + 'r" where
  "patchChip findChipById updateChip req =
     (let chipId = parseFloat (params_id req)
      in if \<not> truthyNumber chipId then Inl (customHttpError BAD_REQUEST chip_INVALID_ID)
         else
           (let name = body_name req; user = body_user req
            in if \<not> truthyString name then Inl (customHttpError BAD_REQUEST chip_NAME_REQUIRED)
               else
                 (case findChipById chipId of
                    Inl e \<Rightarrow> Inl e
                  | Inr None \<Rightarrow> Inl (customHttpError NOT_FOUND chip_CHIP_NOT_FOUND)
                  | Inr (Some currentChip) \<Rightarrow>
                      updateChip (currentChip\<lparr> c_name := (case name of Some s \<Rightarrow> s | None \<Rightarrow> []),
                                               c_updated_by := u_username user \<rparr>)
                                 chipId)))"

definition deleteChip ::
  "(number \<Rightarrow> customHttpError + ChipModel option) \<Rightarrow>
   (number \<Rightarrow> customHttpError + 'r) \<Rightarrow> request \<Rightarrow> customHttpError + 'r" where
  "deleteChip findChipById removeChip req =
     (let chipId = parseFloat (params_id req)
      in if \<not> truthyNumber chipId then Inl (customHttpError BAD_REQUEST chip_INVALID_ID)
         else
           (case findChipById chipId of
              Inl e \<Rightarrow> Inl e
            | Inr None \<Rightarrow> Inl (customHttpError NOT_FOUND chip_CHIP_NOT_FOUND)
            | Inr (Some isChipExist) \<Rightarrow> removeChip chipId))"

section \<open>The two configuration modules\<close>

text \<open>
  The exported \<^verbatim>\<open>config\<close> object is a JavaScript value built from \<^verbatim>\<open>process.env\<close>,
  a partial map from names to strings. Two versions of the module are among the sources:
  \<open>config_raw\<close> puts eight raw environment reads under \<^verbatim>\<open>database\<close>,
  \<open>config_active\<close> puts the result of \<^verbatim>\<open>getActiveDatabase(process.env.ACTIVE_DB || '')\<close>
  there. \<^verbatim>\<open>__dirname\<close> is a parameter.
\<close>

datatype jsvalue =
    JUndefined
  | JString string
  | JNumber number
  | JBoolean bool
  | JObject "(string \<times> jsvalue) list"

definition env_read :: "(string \<rightharpoonup> string) \<Rightarrow> string \<Rightarrow> jsvalue" where
  \<comment> \<open>\<^verbatim>\<open>process.env.KEY\<close>\<close>
  "env_read env k = (case env k of None \<Rightarrow> JUndefined | Some v \<Rightarrow> JString v)"

definition env_or :: "(string \<rightharpoonup> string) \<Rightarrow> string \<Rightarrow> string \<Rightarrow> string" where
  \<comment> \<open>\<^verbatim>\<open>process.env.KEY || 'default'\<close>: an unset or empty variable gives the default\<close>
  "env_or env k d = (if truthyString (env k) then (case env k of Some v \<Rightarrow> v | None \<Rightarrow> d) else d)"

definition get_field :: "string \<Rightarrow> jsvalue \<Rightarrow> jsvalue" where
  "get_field k v =
     (case v of
        JObject kvs \<Rightarrow> (case map_of kvs k of Some x \<Rightarrow> x | None \<Rightarrow> JUndefined)
      | _ \<Rightarrow> JUndefined)"

definition config_common :: "(string \<rightharpoonup> string) \<Rightarrow> (string \<times> jsvalue) list" where
  \<comment> \<open>the \<^verbatim>\<open>app\<close>, \<^verbatim>\<open>jwt\<close> and \<^verbatim>\<open>storage\<close> entries, the same text in both modules\<close>
  "config_common env =
     [(''app'', JObject [(''name'', JString (env_or env ''NAME'' ''LITMARK_BACKEND'')),
                         (''port'', JString (env_or env ''SERVER_PORT'' ''5000''))]),
      (''jwt'', JObject [(''ACCESS_TOKEN_SECRET'', env_read env ''ACCESS_TOKEN_SECRET''),
                         (''ACCESS_TOKEN_LIFETIME'', env_read env ''ACCESS_TOKEN_LIFETIME''),
                         (''REFRESH_TOKEN_SECRET'', env_read env ''REFRESH_TOKEN_SECRET''),
                         (''REFRESH_TOKEN_LIFETIME'', env_read env ''REFRESH_TOKEN_LIFETIME'')]),
      (''storage'', JObject [(''CLOUDINARY_CLOUD_NAME'', env_read env ''CLOUDINARY_CLOUD_NAME''),
                             (''CLOUDINARY_API_KEY'', env_read env ''CLOUDINARY_API_KEY''),
                             (''CLOUDINARY_API_SECRET'', env_read env ''CLOUDINARY_API_SECRET'')])]"

definition config_raw :: "(string \<rightharpoonup> string) \<Rightarrow> jsvalue" where
  "config_raw env =
     JObject (config_common env @
       [(''database'', JObject [(''DB_NAME'', env_read env ''DB_NAME''),
                                (''POSTGRES_DB_URI'', env_read env ''POSTGRES_DB_URI''),
                                (''TEST_DB_URI'', env_read env ''TEST_DB_URI''),
                                (''TEST_DB_HOST'', env_read env ''TEST_DB_HOST''),
                                (''TEST_DB_DATABASE'', env_read env ''TEST_DB_DATABASE''),
                                (''TEST_DB_USER'', env_read env ''TEST_DB_USER''),
                                (''TEST_DB_PASSWORD'', env_read env ''TEST_DB_PASSWORD''),
                                (''TEST_DB_PORT'', env_read env ''TEST_DB_PORT'')])])"

definition getActiveDatabase :: "(string \<rightharpoonup> string) \<Rightarrow> string \<Rightarrow> string \<Rightarrow> jsvalue" where
  \<comment> \<open>the function of the second module; falling off the end returns \<^verbatim>\<open>undefined\<close>.
      \<^verbatim>\<open>parseInt(process.env.DB_PORT!)\<close> of an unset variable parses the text
      \<^verbatim>\<open>undefined\<close>.\<close>
  "getActiveDatabase env dirname db =
     (if db = ''mysql2'' then
        JObject [(''client'', JString db),
                 (''connection'',
                    JObject [(''user'', env_read env ''DB_MYSQL_USER''),
                             (''password'', env_read env ''DB_MYSQL_PASSWORD''),
                             (''database'', env_read env ''DB_NAME''),
                             (''host'', JString (env_or env ''DB_HOST'' ''127.0.0.1'')),
                             (''port'',
                                (let p = parseInt (case env ''DB_PORT'' of Some v \<Rightarrow> v
                                                   | None \<Rightarrow> ''undefined'')
                                 in if truthyNumber p then JNumber p else JNumber (Finite 3306)))])]
      else if db = ''pg'' then
        (let devlopment = JObject [(''connectionString'', env_read env ''POSTGRES_DB_URI''),
                                   (''ssl'', JObject [(''rejectUnauthorized'', JBoolean False)])];
             test = JObject [(''host'', env_read env ''TEST_DB_HOST''),
                             (''database'', env_read env ''TEST_DB_DATABASE''),
                             (''user'', env_read env ''TEST_DB_USER''),
                             (''password'', env_read env ''TEST_DB_PASSWORD''),
                             (''port'', env_read env ''TEST_DB_PORT'')]
         in JObject [(''client'', JString db),
                     (''connection'', if env ''NODE_ENV'' = Some ''test'' then test else devlopment),
                     (''migrations'', JObject [(''directory'', JString (dirname @ ''/../migrations''))])])
      else JUndefined)"

definition config_active :: "(string \<rightharpoonup> string) \<Rightarrow> string \<Rightarrow> jsvalue" where
  "config_active env dirname =
     JObject (config_common env @
       [(''database'', getActiveDatabase env dirname (env_or env ''ACTIVE_DB'' []))])"

section \<open>Concrete data for evaluation\<close>

definition db0 :: database where
  \<comment> \<open>user 7 owns the root folder 1 and its child 2; image 1 is the placeholder\<close>
  "db0 = \<lparr> folders =
             [\<lparr> f_id = 1, f_name = ''Work'', f_image_id = 1, f_user_id = 7, f_folder_id = None,
                 f_isdeleted = False, f_created_by = ''ann'', f_updated_by = ''ann'' \<rparr>,
              \<lparr> f_id = 2, f_name = ''Sub'', f_image_id = 1, f_user_id = 7, f_folder_id = Some 1,
                 f_isdeleted = False, f_created_by = ''ann'', f_updated_by = ''ann'' \<rparr>],
           images =
             [\<lparr> i_id = 1, i_url = default_image_url, i_type = ''folder'', i_name = ''placeholder'',
                 i_isdeleted = False, i_created_by = ''ann'', i_updated_by = ''ann'' \<rparr>] \<rparr>"

definition req0 :: request where
  \<comment> \<open>a request of user 7 with nothing but the user in it\<close>
  "req0 = \<lparr> params_id = [], body_name = None, body_folder_id = None, body_image_id = None,
            body_user = \<lparr> u_id = 7, u_username = ''ann'' \<rparr>, req_file = None,
            query_sort = None, query_folder_id = None, query_order = None \<rparr>"

definition pic :: upload_file where
  "pic = \<lparr> path = ''/tmp/pic.png'', filename = ''pic.png'' \<rparr>"

definition toy_upload :: "string \<Rightarrow> string" where
  \<comment> \<open>a stand-in for the external image storage: the URL is made from the path\<close>
  "toy_upload p = ''https://img.example'' @ p"


definition toy_compare :: "string \<Rightarrow> string \<Rightarrow> bool" where
  \<comment> \<open>a stand-in for the hash comparison: the hash of a password is its reversal\<close>
  "toy_compare p h = (h = rev p)"


definition no_chip :: "number \<Rightarrow> customHttpError + ChipModel option" where
  \<comment> \<open>a stand-in for \<^verbatim>\<open>findChipById\<close> on a store without chips\<close>
  "no_chip chipId = Inr None"

definition toy_removeChip :: "number \<Rightarrow> customHttpError + number" where
  "toy_removeChip chipId = Inr chipId"

definition toy_updateChip :: "ChipModel \<Rightarrow> number \<Rightarrow> customHttpError + number" where
  "toy_updateChip chipData chipId = Inr chipId"


section \<open>Projections used to state results\<close>

text \<open>
  The five folder columns every read selects, as they appear in a returned object and as
  they stand in a table row.
\<close>

definition columns :: "FolderModel \<Rightarrow> int option \<times> string option \<times> int option \<times> int option \<times> int option option" where
  "columns r = (m_id r, m_name r, m_image_id r, m_user_id r, m_folder_id r)"

definition row_columns :: "folder_row \<Rightarrow> int option \<times> string option \<times> int option \<times> int option \<times> int option option" where
  "row_columns f = (Some (f_id f), Some (f_name f), Some (f_image_id f), Some (f_user_id f), Some (f_folder_id f))"


section \<open>Sequences of folder requests\<close>

text \<open>
  The three handlers that write to the folder table, as calls made one after the other
  (a \<open>PostFolder\<close> carries the UUID drawn for it). \<open>hidden n db\<close> says that the
  table holds the id \<open>n\<close> and that every row with this id is soft-deleted.
\<close>

datatype call = PostFolder string request | PatchFolder request | DeleteFolder request

fun handle :: "(string \<Rightarrow> string) \<Rightarrow> database \<Rightarrow> call \<Rightarrow> database" where
  "handle uploadImage db (PostFolder uuid req) = snd (postFolders uploadImage uuid db req)"
| "handle uploadImage db (PatchFolder req) = snd (patchFolders uploadImage db req)"
| "handle uploadImage db (DeleteFolder req) = snd (deleteFolders db req)"

definition hidden :: "int \<Rightarrow> database \<Rightarrow> bool" where
  "hidden n db = (n \<in> f_id ` set (folders db) \<and> (\<forall>f \<in> set (folders db). f_id f = n \<longrightarrow> f_isdeleted f))"



section \<open>Theorems\<close>

subsection \<open>The password check\<close>

text \<open>
  C8. For every password and stored hash, \<open>isMatchingPassword\<close> throws the 401
  invalid-credentials error exactly when the hash comparison fails, and it returns
  normally (no error of any kind) exactly when the comparison succeeds.
\<close>

theorem isMatchingPassword_unauthorized_iff:
  "(isMatchingPassword compare password hashed_password
      = Inl (customHttpError 401 auth_INVALID_CREDENTIALS)) = (\<not> compare password hashed_password)
   \<and> (isMatchingPassword compare password hashed_password = Inr ()) = compare password hashed_password
   \<and> (\<forall>e. isMatchingPassword compare password hashed_password = Inl e
          \<longrightarrow> e = customHttpError 401 auth_INVALID_CREDENTIALS)"
  by (simp add: isMatchingPassword_def UNAUTHORIZED_def)

theorem isMatchingPassword_unauthorized_iff_witness:
  "isMatchingPassword toy_compare ''secret'' ''terces'' = Inr ()
   \<and> isMatchingPassword toy_compare ''secret'' ''secret''
       = Inl (customHttpError 401 auth_INVALID_CREDENTIALS)"
proof -
  have a: "toy_compare ''secret'' ''terces''" by (simp add: toy_compare_def)
  have b: "\<not> toy_compare ''secret'' ''secret''" by (simp add: toy_compare_def)
  from a b isMatchingPassword_unauthorized_iff [of toy_compare "''secret''" "''terces''"]
           isMatchingPassword_unauthorized_iff [of toy_compare "''secret''" "''secret''"]
  show ?thesis by blast
qed

subsection \<open>Facts about the repository\<close>

lemma leftJoinImages_fst:
  "(f, i) \<in> set (leftJoinImages db) \<Longrightarrow> f \<in> set (folders db)"
  unfolding leftJoinImages_def by (auto simp: Let_def split: if_splits)

lemma remove_folders:
  "folders (snd (remove db folderId))
     = map (\<lambda>f. if f_id f = folderId then f\<lparr>f_isdeleted := True\<rparr> else f) (folders db)"
  by (simp add: remove_def)

lemma remove_flag:
  assumes a: "f \<in> set (folders (snd (remove db n)))" and b: "f_id f = n"
  shows "f_isdeleted f"
proof -
  from a obtain g where g: "g \<in> set (folders db)"
      "f = (if f_id g = n then g\<lparr>f_isdeleted := True\<rparr> else g)"
    unfolding remove_folders by auto
  show ?thesis
  proof (cases "f_id g = n")
    case True
    with g show ?thesis by simp
  next
    case False
    with g b show ?thesis by simp
  qed
qed

lemma joined_after_remove:
  assumes "(f, i) \<in> set (leftJoinImages (snd (remove db folderId)))" and "f_id f = folderId"
  shows "f_isdeleted f"
  using assms leftJoinImages_fst remove_flag by blast

lemma selected_id:
  "Some n \<in> m_id ` set (map selectColumns (filter P J))
    \<Longrightarrow> \<exists>f i. (f, i) \<in> set J \<and> P (f, i) \<and> f_id f = n"
  by (fastforce simp: selectColumns_def)

text \<open>
  C3. After the repository's \<open>remove\<close> of a folder id, no read path returns a row with
  that id: not the root listing of any user, not the child listing of any user and parent,
  and \<open>fetchById\<close> of the id finds nothing.
\<close>

theorem deleted_folder_not_returned:
  "Some folderId \<notin> m_id ` set (fetchAllParent (snd (remove db folderId)) user_id)
   \<and> Some folderId \<notin> m_id ` set (fetchAllNested (snd (remove db folderId)) user_id parentFolderId)
   \<and> fetchById (snd (remove db folderId)) folderId = None"
proof (intro conjI)
  let ?J = "leftJoinImages (snd (remove db folderId))"
  have none: "\<And>f i. (f, i) \<in> set ?J \<Longrightarrow> f_id f = folderId \<Longrightarrow> f_isdeleted f = False \<Longrightarrow> False"
    using joined_after_remove by blast
  show "Some folderId \<notin> m_id ` set (fetchAllParent (snd (remove db folderId)) user_id)"
  proof
    assume "Some folderId \<in> m_id ` set (fetchAllParent (snd (remove db folderId)) user_id)"
    from selected_id [OF this [unfolded fetchAllParent_def]]
    show False using none by auto
  qed
  show "Some folderId \<notin> m_id ` set (fetchAllNested (snd (remove db folderId)) user_id parentFolderId)"
  proof
    assume "Some folderId \<in> m_id ` set (fetchAllNested (snd (remove db folderId)) user_id parentFolderId)"
    from selected_id [OF this [unfolded fetchAllNested_def]]
    show False using none by auto
  qed
  have "filter (\<lambda>(f, i). f_id f = folderId \<and> f_isdeleted f = False) ?J = []"
    unfolding filter_empty_conv using none by auto
  then show "fetchById (snd (remove db folderId)) folderId = None"
    by (simp add: fetchById_def)
qed

theorem deleted_folder_not_returned_witness:
  "map m_id (fetchAllNested db0 7 1) = [Some 2]
   \<and> map m_id (fetchAllParent db0 7) = [Some 1]
   \<and> Some 2 \<notin> m_id ` set (fetchAllNested (snd (remove db0 2)) 7 1)
   \<and> Some 1 \<notin> m_id ` set (fetchAllParent (snd (remove db0 1)) 7)
   \<and> fetchById (snd (remove db0 2)) 2 = None"
proof -
  have a: "map m_id (fetchAllNested db0 7 1) = [Some 2]" by code_simp
  have b: "map m_id (fetchAllParent db0 7) = [Some 1]" by code_simp
  from a b deleted_folder_not_returned [of 2 db0 7 1] deleted_folder_not_returned [of 1 db0 7 1]
  show ?thesis by blast
qed

subsection \<open>The image of a created or patched folder\<close>

text \<open>
  C1. A folder is created with an uploaded picture while the placeholder image 1 exists:
  the upload is saved as image 2, yet the new folder 3 is stored with image id 1.
\<close>

theorem postFolders_upload_not_stored:
  "fst (postFolders toy_upload ''uuid-1'' db0
          (req0\<lparr>body_name := Some ''Pics'', req_file := Some pic\<rparr>)) = Inr 3
   \<and> map (\<lambda>i. (i_id i, i_name i))
         (images (snd (postFolders toy_upload ''uuid-1'' db0
                         (req0\<lparr>body_name := Some ''Pics'', req_file := Some pic\<rparr>))))
       = [(1, ''placeholder''), (2, ''pic.png'')]
   \<and> map (\<lambda>f. (f_id f, f_image_id f))
         (folders (snd (postFolders toy_upload ''uuid-1'' db0
                          (req0\<lparr>body_name := Some ''Pics'', req_file := Some pic\<rparr>))))
       = [(1, 1), (2, 1), (3, 1)]"
  by code_simp

text \<open>
  C7. A folder is patched with an uploaded picture: the image row saved for it has type
  \<open>user\<close>, not \<open>folder\<close>.
\<close>

theorem patchFolders_image_type_user:
  "fst (patchFolders toy_upload db0
          (req0\<lparr>params_id := ''2'', body_name := Some ''Pics'', req_file := Some pic\<rparr>)) = Inr 1
   \<and> map i_name (images (snd (patchFolders toy_upload db0
          (req0\<lparr>params_id := ''2'', body_name := Some ''Pics'', req_file := Some pic\<rparr>))))
       = [''placeholder'', ''pic.png'']
   \<and> map i_type (images (snd (patchFolders toy_upload db0
          (req0\<lparr>params_id := ''2'', body_name := Some ''Pics'', req_file := Some pic\<rparr>))))
       = [''folder'', ''user'']
   \<and> map f_image_id (folders (snd (patchFolders toy_upload db0
          (req0\<lparr>params_id := ''2'', body_name := Some ''Pics'', req_file := Some pic\<rparr>))))
       = [1, 2]"
  by code_simp

theorem patchFolders_image_type_user_witness:
  "map i_type (images (snd (patchFolders toy_upload db0
          (req0\<lparr>params_id := ''2'', body_name := Some ''Pics'', req_file := Some pic\<rparr>))))
     \<noteq> [''folder'', ''folder'']"
  using patchFolders_image_type_user by simp


subsection \<open>Facts about numbers\<close>

lemma integerOf_simps:
  "integerOf NaN = None" "integerOf (Infinity s) = None" "integerOf (Finite (of_int n)) = Some n"
  by (simp_all add: integerOf_def)

lemma integerOf_Some: "integerOf x = Some n \<Longrightarrow> x = Finite (of_int n)"
  by (cases x) (auto simp: integerOf_def split: if_splits)

lemma tiny_positive: "(0::rat) < 1 / 2 ^ 1075" "(1::rat) / 2 ^ 1075 < 1"
  by simp_all

lemma truthyNumber_of_int: "truthyNumber (Finite (of_int n)) = (n \<noteq> 0)"
proof (cases "n = 0")
  case True
  with tiny_positive(1) show ?thesis by (simp add: truthyNumber_def)
next
  case False
  then have "1 \<le> \<bar>n\<bar>" by arith
  then have "(of_int 1 :: rat) \<le> of_int \<bar>n\<bar>" by (simp only: of_int_le_iff)
  then have "(1::rat) \<le> \<bar>of_int n\<bar>" by simp
  with tiny_positive(2) have "(1::rat) / 2 ^ 1075 < \<bar>of_int n\<bar>" by (rule less_le_trans)
  with False show ?thesis by (simp add: truthyNumber_def)
qed

lemma truthyNumber_simps:
  "truthyNumber NaN = False" "truthyNumber (Infinity s) = True"
  by (simp_all add: truthyNumber_def)

subsection \<open>Listing the children of a folder\<close>

lemma leftJoinImages_covers:
  "f \<in> set (folders db) \<Longrightarrow> \<exists>i. (f, i) \<in> set (leftJoinImages db)"
proof -
  assume f: "f \<in> set (folders db)"
  let ?ms = "filter (\<lambda>i. i_id i = f_image_id f) (images db)"
  show ?thesis
  proof (cases "?ms = []")
    case True
    with f have "(f, None) \<in> set (leftJoinImages db)"
      unfolding leftJoinImages_def by (auto simp: Let_def intro!: bexI [of _ f])
    then show ?thesis ..
  next
    case False
    then obtain m where m: "m \<in> set ?ms" by (cases ?ms) auto
    with f False have "(f, Some m) \<in> set (leftJoinImages db)"
      unfolding leftJoinImages_def by (auto simp: Let_def intro!: bexI [of _ f])
    then show ?thesis ..
  qed
qed

lemma joined_folders:
  "fst ` set (filter (\<lambda>(f, i). P f) (leftJoinImages db)) = {f \<in> set (folders db). P f}"
proof (intro set_eqI iffI)
  fix f assume "f \<in> fst ` set (filter (\<lambda>(f, i). P f) (leftJoinImages db))"
  then obtain i where "(f, i) \<in> set (leftJoinImages db)" and "P f" by auto
  then show "f \<in> {f \<in> set (folders db). P f}" using leftJoinImages_fst by blast
next
  fix f assume "f \<in> {f \<in> set (folders db). P f}"
  then have f: "f \<in> set (folders db)" and p: "P f" by auto
  from leftJoinImages_covers [OF f] obtain i where "(f, i) \<in> set (leftJoinImages db)" ..
  with p have "(f, i) \<in> set (filter (\<lambda>(f, i). P f) (leftJoinImages db))" by simp
  then show "f \<in> fst ` set (filter (\<lambda>(f, i). P f) (leftJoinImages db))" by force
qed

lemma fetchById_None_iff:
  "(fetchById db n = None) = (\<not> (\<exists>f \<in> set (folders db). f_id f = n \<and> \<not> f_isdeleted f))"
proof -
  let ?F = "filter (\<lambda>(f, i). f_id f = n \<and> f_isdeleted f = False) (leftJoinImages db)"
  have "(fetchById db n = None) = (?F = [])"
    by (cases ?F) (simp_all add: fetchById_def)
  also have "\<dots> = (fst ` set ?F = {})" by (simp only: image_is_empty set_empty)
  also have "\<dots> = ({f \<in> set (folders db). f_id f = n \<and> f_isdeleted f = False} = {})"
    by (simp only: joined_folders [of "\<lambda>f. f_id f = n \<and> f_isdeleted f = False" db])
  also have "\<dots> = (\<not> (\<exists>f \<in> set (folders db). f_id f = n \<and> \<not> f_isdeleted f))" by auto
  finally show ?thesis .
qed

lemma columns_select: "columns (selectColumns (f, i)) = row_columns f"
  by (simp add: columns_def row_columns_def selectColumns_def)

lemma fetchAllNested_columns:
  "columns ` set (fetchAllNested db u n)
     = row_columns ` {f \<in> set (folders db). f_user_id f = u \<and> f_folder_id f = Some n \<and> \<not> f_isdeleted f}"
proof -
  let ?P = "\<lambda>f. f_user_id f = u \<and> f_folder_id f = Some n \<and> f_isdeleted f = False"
  let ?F = "filter (\<lambda>(f, i). ?P f) (leftJoinImages db)"
  have "columns ` set (fetchAllNested db u n) = (\<lambda>fi. columns (selectColumns fi)) ` set ?F"
    by (simp add: fetchAllNested_def image_image)
  also have "\<dots> = (\<lambda>fi. row_columns (fst fi)) ` set ?F"
    by (rule image_cong) (auto simp: columns_select)
  also have "\<dots> = row_columns ` (fst ` set ?F)" by (simp add: image_image)
  also have "\<dots> = row_columns ` {f \<in> set (folders db). ?P f}"
    by (simp only: joined_folders [of ?P db])
  finally show ?thesis by simp
qed

text \<open>
  C6 (as amended). With \<open>findAllNestedFolders\<close> as the specification describes it,
  \<open>getAllnestedFolders\<close> fails with 400 whenever what \<^verbatim>\<open>parseInt\<close> reads from the id
  is not a positive integer (\<^verbatim>\<open>NaN\<close>, an infinity, zero or a negative integer). When
  \<^verbatim>\<open>parseInt\<close> reads a positive integer \<open>n\<close> it returns rows whose columns are exactly
  those of the non-deleted folders of the authenticated user whose parent is \<open>n\<close>.
\<close>

theorem getAllnestedFolders_result:
  "(integerOf (parseInt (params_id req)) = None \<longrightarrow>
      getAllnestedFolders db req = Inl (customHttpError 400 folder_INVALID_ID))
   \<and> (\<forall>n. integerOf (parseInt (params_id req)) = Some n \<longrightarrow>
        (n \<le> 0 \<longrightarrow> getAllnestedFolders db req = Inl (customHttpError 400 folder_INVALID_ID))
        \<and> (0 < n \<longrightarrow>
             (\<exists>rows. getAllnestedFolders db req = Inr rows
                \<and> columns ` set rows
                   = row_columns ` {f \<in> set (folders db). f_user_id f = u_id (body_user req)
                                      \<and> f_folder_id f = Some n \<and> \<not> f_isdeleted f})))"
proof (intro conjI allI impI)
  assume "integerOf (parseInt (params_id req)) = None"
  then show "getAllnestedFolders db req = Inl (customHttpError 400 folder_INVALID_ID)"
    by (simp add: getAllnestedFolders_def findAllNestedFolders_def BAD_REQUEST_def Let_def)
next
  fix n assume "integerOf (parseInt (params_id req)) = Some n" and "n \<le> 0"
  then show "getAllnestedFolders db req = Inl (customHttpError 400 folder_INVALID_ID)"
    by (simp add: getAllnestedFolders_def findAllNestedFolders_def BAD_REQUEST_def Let_def)
next
  fix n assume i: "integerOf (parseInt (params_id req)) = Some n" and p: "0 < n"
  from i have "\<not> isNaN (parseInt (params_id req))"
    by (auto simp: isNaN_def integerOf_simps)
  with i p have "getAllnestedFolders db req = Inr (fetchAllNested db (u_id (body_user req)) n)"
    by (simp add: getAllnestedFolders_def findAllNestedFolders_def Let_def)
  then show "\<exists>rows. getAllnestedFolders db req = Inr rows
                \<and> columns ` set rows
                   = row_columns ` {f \<in> set (folders db). f_user_id f = u_id (body_user req)
                                      \<and> f_folder_id f = Some n \<and> \<not> f_isdeleted f}"
    by (simp add: fetchAllNested_columns)
qed

theorem getAllnestedFolders_result_witness:
  "getAllnestedFolders db0 (req0\<lparr>params_id := ''abc''\<rparr>) = Inl (customHttpError 400 folder_INVALID_ID)
   \<and> getAllnestedFolders db0 (req0\<lparr>params_id := ''-5''\<rparr>) = Inl (customHttpError 400 folder_INVALID_ID)
   \<and> (\<exists>rows. getAllnestedFolders db0 (req0\<lparr>params_id := ''1''\<rparr>) = Inr rows
         \<and> columns ` set rows = {(Some 2, Some ''Sub'', Some 1, Some 7, Some (Some 1))})"
proof -
  have a: "integerOf (parseInt (params_id (req0\<lparr>params_id := ''abc''\<rparr>))) = None" by code_simp
  have b: "integerOf (parseInt (params_id (req0\<lparr>params_id := ''-5''\<rparr>))) = Some (- 5)" by code_simp
  have b': "(- 5 :: int) \<le> 0" by simp
  have c: "integerOf (parseInt (params_id (req0\<lparr>params_id := ''1''\<rparr>))) = Some 1" by code_simp
  have c': "(0 :: int) < 1" by simp
  have s: "row_columns ` {f \<in> set (folders db0). f_user_id f = u_id (body_user (req0\<lparr>params_id := ''1''\<rparr>))
                                 \<and> f_folder_id f = Some 1 \<and> \<not> f_isdeleted f}
           = {(Some 2, Some ''Sub'', Some 1, Some 7, Some (Some 1))}"
    unfolding set_filter [symmetric] by (simp add: db0_def req0_def row_columns_def)
  have 1: "getAllnestedFolders db0 (req0\<lparr>params_id := ''abc''\<rparr>) = Inl (customHttpError 400 folder_INVALID_ID)"
    using getAllnestedFolders_result [of "req0\<lparr>params_id := ''abc''\<rparr>" db0,
            THEN conjunct1, rule_format, OF a] .
  have 2: "getAllnestedFolders db0 (req0\<lparr>params_id := ''-5''\<rparr>) = Inl (customHttpError 400 folder_INVALID_ID)"
    using getAllnestedFolders_result [of "req0\<lparr>params_id := ''-5''\<rparr>" db0,
            THEN conjunct2, rule_format, OF b, THEN conjunct1, rule_format, OF b'] .
  have 3: "\<exists>rows. getAllnestedFolders db0 (req0\<lparr>params_id := ''1''\<rparr>) = Inr rows
           \<and> columns ` set rows
              = row_columns ` {f \<in> set (folders db0). f_user_id f = u_id (body_user (req0\<lparr>params_id := ''1''\<rparr>))
                                 \<and> f_folder_id f = Some 1 \<and> \<not> f_isdeleted f}"
    using getAllnestedFolders_result [of "req0\<lparr>params_id := ''1''\<rparr>" db0,
            THEN conjunct2, rule_format, OF c, THEN conjunct2, rule_format, OF c'] .
  from 1 2 3 show ?thesis unfolding s by (intro conjI)
qed

text \<open>
  C6 as stated fails: the ids \<open>1.5\<close> and \<open>1abc\<close> are not positive integers, yet
  \<^verbatim>\<open>parseInt\<close> reads both as 1 and they are answered with the children of folder 1.
\<close>

theorem getAllnestedFolders_not_positive_counterexample:
  "parseInt ''1.5'' = Finite 1
   \<and> map_sum id (map m_id) (getAllnestedFolders db0 (req0\<lparr>params_id := ''1.5''\<rparr>))
       = Inr [Some 2]
   \<and> getAllnestedFolders db0 (req0\<lparr>params_id := ''1.5''\<rparr>)
       \<noteq> Inl (customHttpError 400 folder_INVALID_ID)
   \<and> map_sum id (map m_id) (getAllnestedFolders db0 (req0\<lparr>params_id := ''1abc''\<rparr>))
       = Inr [Some 2]"
  by code_simp

subsection \<open>Deleting a folder\<close>






subsection \<open>Sorting\<close>




subsection \<open>Chip ids\<close>

lemma parseFloat_examples:
  "parseFloat ''3.5'' = Finite (7 / 2)" "parseFloat ''7abc'' = Finite 7" "parseFloat ''0'' = Finite 0"
  by code_simp+

lemma truthy_examples:
  "truthyNumber (Finite (7 / 2))" "truthyNumber (Finite 7)" "\<not> truthyNumber (Finite 0)"
  by (simp_all add: truthyNumber_def)

text \<open>
  C10. In \<open>patchChip\<close> and \<open>deleteChip\<close> the id is read with \<^verbatim>\<open>parseFloat\<close> and only
  tested for falsiness. An id whose number is falsy (\<^verbatim>\<open>NaN\<close> or zero, as for the text
  \<open>0\<close>) is refused with 400 whatever the store holds. Every id whose number is truthy
  passes the test and is looked up under that number: with no such chip the answer is 404,
  with one the service's answer is returned. The texts \<open>3.5\<close> and \<open>7abc\<close> are
  read as the truthy numbers 7/2 and 7.
\<close>

theorem chip_id_only_checked_for_falsiness:
  "(\<not> truthyNumber (parseFloat (params_id req)) \<longrightarrow>
       patchChip findChipById updateChip req = Inl (customHttpError 400 chip_INVALID_ID)
     \<and> deleteChip findChipById removeChip req = Inl (customHttpError 400 chip_INVALID_ID))
   \<and> (truthyNumber (parseFloat (params_id req)) \<longrightarrow>
        (findChipById (parseFloat (params_id req)) = Inr None \<longrightarrow>
           deleteChip findChipById removeChip req = Inl (customHttpError 404 chip_CHIP_NOT_FOUND)
         \<and> (truthyString (body_name req) \<longrightarrow>
              patchChip findChipById updateChip req = Inl (customHttpError 404 chip_CHIP_NOT_FOUND)))
      \<and> (\<forall>c. findChipById (parseFloat (params_id req)) = Inr (Some c) \<longrightarrow>
           deleteChip findChipById removeChip req = removeChip (parseFloat (params_id req))
         \<and> (\<forall>name. body_name req = Some name \<and> name \<noteq> [] \<longrightarrow>
              patchChip findChipById updateChip req
                = updateChip (c\<lparr>c_name := name, c_updated_by := u_username (body_user req)\<rparr>)
                             (parseFloat (params_id req)))))
   \<and> parseFloat ''3.5'' = Finite (7 / 2) \<and> truthyNumber (parseFloat ''3.5'')
   \<and> parseFloat ''7abc'' = Finite 7 \<and> truthyNumber (parseFloat ''7abc'')
   \<and> parseFloat ''0'' = Finite 0 \<and> \<not> truthyNumber (parseFloat ''0'')"
proof -
  have falsy: "\<not> truthyNumber (parseFloat (params_id req)) \<longrightarrow>
       patchChip findChipById updateChip req = Inl (customHttpError 400 chip_INVALID_ID)
     \<and> deleteChip findChipById removeChip req = Inl (customHttpError 400 chip_INVALID_ID)"
    by (simp add: patchChip_def deleteChip_def BAD_REQUEST_def)
  have truthy: "truthyNumber (parseFloat (params_id req)) \<longrightarrow>
        (findChipById (parseFloat (params_id req)) = Inr None \<longrightarrow>
           deleteChip findChipById removeChip req = Inl (customHttpError 404 chip_CHIP_NOT_FOUND)
         \<and> (truthyString (body_name req) \<longrightarrow>
              patchChip findChipById updateChip req = Inl (customHttpError 404 chip_CHIP_NOT_FOUND)))
      \<and> (\<forall>c. findChipById (parseFloat (params_id req)) = Inr (Some c) \<longrightarrow>
           deleteChip findChipById removeChip req = removeChip (parseFloat (params_id req))
         \<and> (\<forall>name. body_name req = Some name \<and> name \<noteq> [] \<longrightarrow>
              patchChip findChipById updateChip req
                = updateChip (c\<lparr>c_name := name, c_updated_by := u_username (body_user req)\<rparr>)
                             (parseFloat (params_id req))))"
    by (simp add: patchChip_def deleteChip_def NOT_FOUND_def truthyString_def)
  from falsy truthy parseFloat_examples truthy_examples show ?thesis
    by (simp only: simp_thms)
qed

theorem chip_id_only_checked_for_falsiness_witness:
  "deleteChip no_chip toy_removeChip (req0\<lparr>params_id := ''0''\<rparr>) = Inl (customHttpError 400 chip_INVALID_ID)
   \<and> deleteChip no_chip toy_removeChip (req0\<lparr>params_id := ''3.5''\<rparr>) = Inl (customHttpError 404 chip_CHIP_NOT_FOUND)
   \<and> patchChip no_chip toy_updateChip (req0\<lparr>params_id := ''7abc'', body_name := Some ''n''\<rparr>)
       = Inl (customHttpError 404 chip_CHIP_NOT_FOUND)"
proof -
  have f0: "\<not> truthyNumber (parseFloat (params_id (req0\<lparr>params_id := ''0''\<rparr>)))"
    by (simp add: parseFloat_examples truthy_examples)
  have t1: "truthyNumber (parseFloat (params_id (req0\<lparr>params_id := ''3.5''\<rparr>)))"
    by (simp add: parseFloat_examples truthy_examples)
  have t2: "truthyNumber (parseFloat (params_id (req0\<lparr>params_id := ''7abc'', body_name := Some ''n''\<rparr>)))"
    by (simp add: parseFloat_examples truthy_examples)
  have n2: "truthyString (body_name (req0\<lparr>params_id := ''7abc'', body_name := Some ''n''\<rparr>))"
    by (simp add: truthyString_def)
  have 1: "deleteChip no_chip toy_removeChip (req0\<lparr>params_id := ''0''\<rparr>) = Inl (customHttpError 400 chip_INVALID_ID)"
    using chip_id_only_checked_for_falsiness
            [of "req0\<lparr>params_id := ''0''\<rparr>" no_chip toy_updateChip toy_removeChip, THEN conjunct1] f0
    by blast
  have 2: "deleteChip no_chip toy_removeChip (req0\<lparr>params_id := ''3.5''\<rparr>) = Inl (customHttpError 404 chip_CHIP_NOT_FOUND)"
    using chip_id_only_checked_for_falsiness
            [of "req0\<lparr>params_id := ''3.5''\<rparr>" no_chip toy_updateChip toy_removeChip,
             THEN conjunct2, THEN conjunct1] t1
    by (simp add: no_chip_def)
  have 3: "patchChip no_chip toy_updateChip (req0\<lparr>params_id := ''7abc'', body_name := Some ''n''\<rparr>)
       = Inl (customHttpError 404 chip_CHIP_NOT_FOUND)"
    using chip_id_only_checked_for_falsiness
            [of "req0\<lparr>params_id := ''7abc'', body_name := Some ''n''\<rparr>" no_chip toy_updateChip toy_removeChip,
             THEN conjunct2, THEN conjunct1] t2 n2
    by (simp add: no_chip_def)
  from 1 2 3 show ?thesis by (intro conjI)
qed

subsection \<open>The database entry of the configuration\<close>

lemma database_of_config_raw:
  "get_field ''database'' (config_raw env)
     = JObject [(''DB_NAME'', env_read env ''DB_NAME''),
                (''POSTGRES_DB_URI'', env_read env ''POSTGRES_DB_URI''),
                (''TEST_DB_URI'', env_read env ''TEST_DB_URI''),
                (''TEST_DB_HOST'', env_read env ''TEST_DB_HOST''),
                (''TEST_DB_DATABASE'', env_read env ''TEST_DB_DATABASE''),
                (''TEST_DB_USER'', env_read env ''TEST_DB_USER''),
                (''TEST_DB_PASSWORD'', env_read env ''TEST_DB_PASSWORD''),
                (''TEST_DB_PORT'', env_read env ''TEST_DB_PORT'')]"
  by (simp add: get_field_def config_raw_def config_common_def)

lemma database_of_config_active:
  "get_field ''database'' (config_active env dirname)
     = getActiveDatabase env dirname (env_or env ''ACTIVE_DB'' [])"
  by (simp add: get_field_def config_active_def config_common_def)

lemma getActiveDatabase_shape:
  "getActiveDatabase env dirname db = JUndefined
   \<or> (\<exists>rest. getActiveDatabase env dirname db = JObject ((''client'', JString db) # rest))"
  by (simp add: getActiveDatabase_def Let_def)

lemma config_database_always_differs:
  "get_field ''database'' (config_raw env) \<noteq> get_field ''database'' (config_active env dirname)"
  using getActiveDatabase_shape [of env dirname "env_or env ''ACTIVE_DB'' []"]
  unfolding database_of_config_raw database_of_config_active by auto

text \<open>
  C9. There is an environment for which the \<^verbatim>\<open>database\<close> entry of the configuration
  differs between the two modules.
\<close>

theorem config_database_differs:
  "\<exists>env dirname. get_field ''database'' (config_raw env)
       \<noteq> get_field ''database'' (config_active env dirname)"
  using config_database_always_differs by blast


subsection \<open>Facts about \<open>patchFolders\<close>\<close>

lemma parseInt_integer:
  "parseInt s = NaN \<or> (\<exists>b. parseInt s = Infinity b) \<or> (\<exists>n. parseInt s = Finite (of_int n))"
proof -
  have "\<And>neg m. numberOfInteger neg m = Infinity neg \<or> (\<exists>n. numberOfInteger neg m = Finite (of_int n))"
  proof -
    fix neg m
    show "numberOfInteger neg m = Infinity neg \<or> (\<exists>n. numberOfInteger neg m = Finite (of_int n))"
    proof (cases "roundToDouble m")
      case None
      then show ?thesis by (simp add: numberOfInteger_def)
    next
      case (Some v)
      have "(if neg then - 1 else 1) * (of_int v :: rat) = of_int ((if neg then - 1 else 1) * v)"
        by simp
      with Some show ?thesis by (simp only: numberOfInteger_def option.case) blast
    qed
  qed
  then show ?thesis
    unfolding parseInt_def Let_def by (auto split: prod.splits)
qed

lemma truthy_parseInt_cases:
  assumes "truthyNumber (parseInt s)"
  shows "(\<exists>b. parseInt s = Infinity b) \<or> (\<exists>n. parseInt s = Finite (of_int n) \<and> n \<noteq> 0)"
proof -
  from parseInt_integer [of s] show ?thesis
  proof (elim disjE exE)
    assume "parseInt s = NaN"
    with assms show ?thesis by (simp add: truthyNumber_simps)
  next
    fix b assume "parseInt s = Infinity b"
    then show ?thesis by blast
  next
    fix n assume n: "parseInt s = Finite (of_int n)"
    with assms have "n \<noteq> 0" by (simp add: truthyNumber_of_int)
    with n show ?thesis by blast
  qed
qed

lemma saveImage_folders: "folders (snd (saveImage db imageData username)) = folders db"
  by (simp add: saveImage_def Let_def)

lemma truthy_not_NaN: "truthyNumber x \<Longrightarrow> \<not> isNaN x"
  by (auto simp: isNaN_def truthyNumber_simps)

lemma service_on_integer:
  "findFolderById db (Finite (of_int n))
     = (case fetchById db n of
          None \<Rightarrow> Inl (customHttpError NOT_FOUND folder_FOLDER_NOT_FOUND)
        | Some r \<Rightarrow> Inr r)"
  "updateFolder db folderData (Finite (of_int n)) = update db folderData n"
  "findFolderById db (Infinity b) = Inl (customHttpError NOT_FOUND folder_FOLDER_NOT_FOUND)"
  by (simp_all add: findFolderById_def updateFolder_def integerOf_simps)

lemma patchFolders_invalid_id:
  "\<not> truthyNumber (parseInt (params_id req)) \<Longrightarrow>
     patchFolders uploadImage db req = (Inl (customHttpError 400 folder_INVALID_ID), db)"
  by (simp add: patchFolders_def BAD_REQUEST_def)

lemma patchFolders_no_name:
  "truthyNumber (parseInt (params_id req)) \<Longrightarrow> \<not> truthyString (body_name req) \<Longrightarrow>
     patchFolders uploadImage db req = (Inl (customHttpError 400 folder_NAME_REQUIRED), db)"
  by (simp add: patchFolders_def BAD_REQUEST_def truthy_not_NaN Let_def)

lemma patchFolders_lookup:
  assumes "truthyNumber (parseInt (params_id req))" "body_name req = Some nm" "nm \<noteq> []"
  shows "patchFolders uploadImage db req =
     (case (case req_file req of
              Some fl \<Rightarrow>
                (Some (i_id (fst (saveImage db \<lparr> im_url = uploadImage (path fl), im_type = ''user'',
                                                  im_name = filename fl, im_isdeleted = False \<rparr>
                                               (u_username (body_user req))))),
                 snd (saveImage db \<lparr> im_url = uploadImage (path fl), im_type = ''user'',
                                      im_name = filename fl, im_isdeleted = False \<rparr>
                                   (u_username (body_user req))))
            | None \<Rightarrow> (body_image_id req, db)) of
        (b, db1) \<Rightarrow>
        (case findFolderById db1 (parseInt (params_id req)) of
           Inl e \<Rightarrow> (Inl e, db1)
         | Inr found \<Rightarrow>
             (case updateFolder db1
                     (found\<lparr> m_image_url := None, m_name := Some nm,
                             m_image_id := (if truthyInt b then b else m_image_id found),
                             m_updated_by := Some (u_username (body_user req)) \<rparr>)
                     (parseInt (params_id req)) of
                Inl e \<Rightarrow> (Inl e, db1)
              | Inr (result, db2) \<Rightarrow> (Inr result, db2))))"
  using assms
  by (simp add: patchFolders_def truthy_not_NaN truthyString_def Let_def
           split: option.splits prod.splits sum.splits)

lemma patchFolders_valid:
  assumes "parseInt (params_id req) = Finite (of_int n)" "n \<noteq> 0" "body_name req = Some nm" "nm \<noteq> []"
  shows "patchFolders uploadImage db req =
     (case (case req_file req of
              Some fl \<Rightarrow>
                (Some (i_id (fst (saveImage db \<lparr> im_url = uploadImage (path fl), im_type = ''user'',
                                                  im_name = filename fl, im_isdeleted = False \<rparr>
                                               (u_username (body_user req))))),
                 snd (saveImage db \<lparr> im_url = uploadImage (path fl), im_type = ''user'',
                                      im_name = filename fl, im_isdeleted = False \<rparr>
                                   (u_username (body_user req))))
            | None \<Rightarrow> (body_image_id req, db)) of
        (b, db1) \<Rightarrow>
        (case findFolderById db1 (Finite (of_int n)) of
           Inl e \<Rightarrow> (Inl e, db1)
         | Inr found \<Rightarrow>
             (case updateFolder db1
                     (found\<lparr> m_image_url := None, m_name := Some nm,
                             m_image_id := (if truthyInt b then b else m_image_id found),
                             m_updated_by := Some (u_username (body_user req)) \<rparr>) (Finite (of_int n)) of
                Inl e \<Rightarrow> (Inl e, db1)
              | Inr (result, db2) \<Rightarrow> (Inr result, db2))))"
proof -
  from assms(1,2) have t: "truthyNumber (parseInt (params_id req))"
    by (simp add: truthyNumber_of_int)
  show ?thesis unfolding patchFolders_lookup [OF t assms(3,4)] assms(1) ..
qed

lemma patchFolders_infinity:
  assumes "parseInt (params_id req) = Infinity b" "body_name req = Some nm" "nm \<noteq> []"
  shows "\<exists>db1. folders db1 = folders db
           \<and> patchFolders uploadImage db req
               = (Inl (customHttpError 404 folder_FOLDER_NOT_FOUND), db1)"
proof -
  from assms(1) have t: "truthyNumber (parseInt (params_id req))"
    by (simp add: truthyNumber_simps)
  show ?thesis
    unfolding patchFolders_lookup [OF t assms(2,3)] assms(1) service_on_integer
    by (cases "req_file req") (simp_all add: saveImage_folders NOT_FOUND_def)
qed

lemma patchFolders_Inr_valid:
  assumes r: "patchFolders uploadImage db req = (Inr k, db')"
  shows "\<exists>n nm. parseInt (params_id req) = Finite (of_int n) \<and> n \<noteq> 0
           \<and> body_name req = Some nm \<and> nm \<noteq> []"
proof -
  have t: "truthyNumber (parseInt (params_id req))"
  proof (rule ccontr)
    assume "\<not> truthyNumber (parseInt (params_id req))"
    from patchFolders_invalid_id [OF this, of uploadImage db] r show False by simp
  qed
  have "truthyString (body_name req)"
  proof (rule ccontr)
    assume "\<not> truthyString (body_name req)"
    from patchFolders_no_name [OF t this, of uploadImage db] r show False by simp
  qed
  then obtain nm where nm: "body_name req = Some nm" "nm \<noteq> []"
    by (auto simp: truthyString_def split: option.splits)
  from truthy_parseInt_cases [OF t] show ?thesis
  proof (elim disjE exE conjE)
    fix b assume "parseInt (params_id req) = Infinity b"
    from patchFolders_infinity [OF this nm, where uploadImage = uploadImage and db = db] r show ?thesis by auto
  next
    fix n assume "parseInt (params_id req) = Finite (of_int n)" "n \<noteq> 0"
    with nm show ?thesis by blast
  qed
qed

lemma fold_max_ge: "(a::int) \<le> fold max xs a"
  by (induction xs arbitrary: a) (auto intro: order_trans [OF max.cobounded2])

lemma nextId_positive: "0 < nextId ids"
  using fold_max_ge [of 0 ids] by (simp add: nextId_def)

lemma saveImage_id: "i_id (fst (saveImage db imageData username)) = nextId (map i_id (images db))"
  by (simp add: saveImage_def Let_def)

lemma fetchById_Some:
  assumes "fetchById db n = Some found"
  shows "\<exists>f i. f \<in> set (folders db) \<and> f_id f = n \<and> found = selectColumns (f, i)"
proof -
  let ?F = "filter (\<lambda>(f, i). f_id f = n \<and> f_isdeleted f = False) (leftJoinImages db)"
  from assms obtain rest where "map selectColumns ?F = found # rest"
    by (cases "map selectColumns ?F") (simp_all add: fetchById_def)
  then have "found \<in> set (map selectColumns ?F)" by simp
  then obtain fi where fi: "fi \<in> set ?F" and s: "found = selectColumns fi" by auto
  obtain f i where p: "fi = (f, i)" by (cases fi)
  from fi p have "(f, i) \<in> set (leftJoinImages db)" and "f_id f = n" by auto
  then have "f \<in> set (folders db)" using leftJoinImages_fst by blast
  with \<open>f_id f = n\<close> s p show ?thesis by blast
qed

lemma id_unique:
  assumes "distinct (map f_id xs)" "f \<in> set xs" "g \<in> set xs" "f_id f = f_id g"
  shows "f = g"
  using assms by (meson distinct_map inj_onD)

lemma setColumns_found:
  "setColumns (selectColumns (f, i)
                 \<lparr> m_image_url := None, m_name := Some nm,
                   m_image_id := (if truthyInt b then b else m_image_id (selectColumns (f, i))),
                   m_updated_by := Some ub \<rparr>) f
   = f\<lparr> f_name := nm,
        f_image_id := (case b of Some x \<Rightarrow> if x = 0 then f_image_id f else x | None \<Rightarrow> f_image_id f),
        f_updated_by := ub \<rparr>"
  by (cases b) (simp_all add: setColumns_def selectColumns_def truthyInt_def)

lemma updateFolder_after_fetch:
  assumes d: "distinct (map f_id (folders db1))" and fb: "fetchById db1 n = Some found"
  shows "updateFolder db1
           (found\<lparr> m_image_url := None, m_name := Some nm,
                   m_image_id := (if truthyInt b then b else m_image_id found),
                   m_updated_by := Some ub \<rparr>) (Finite (of_int n))
         = Inr (length (filter (\<lambda>f. f_id f = n) (folders db1)),
                db1\<lparr>folders :=
                  map (\<lambda>g. if f_id g = n
                           then g\<lparr> f_name := nm,
                                  f_image_id := (case b of Some x \<Rightarrow> if x = 0 then f_image_id g else x
                                                 | None \<Rightarrow> f_image_id g),
                                  f_updated_by := ub \<rparr>
                           else g) (folders db1)\<rparr>)"
proof -
  from fetchById_Some [OF fb] obtain f i
    where f: "f \<in> set (folders db1)" and fid: "f_id f = n" and found: "found = selectColumns (f, i)"
    by blast
  let ?D = "found\<lparr> m_image_url := None, m_name := Some nm,
                   m_image_id := (if truthyInt b then b else m_image_id found),
                   m_updated_by := Some ub \<rparr>"
  let ?new = "\<lambda>g. g\<lparr> f_name := nm,
                      f_image_id := (case b of Some x \<Rightarrow> if x = 0 then f_image_id g else x
                                     | None \<Rightarrow> f_image_id g),
                      f_updated_by := ub \<rparr>"
  have row: "setColumns ?D f = ?new f"
    unfolding found by (rule setColumns_found)
  have "map (\<lambda>g. if f_id g = n then setColumns ?D g else g) (folders db1)
        = map (\<lambda>g. if f_id g = n then ?new g else g) (folders db1)"
  proof (rule map_cong [OF refl])
    fix g assume g: "g \<in> set (folders db1)"
    show "(if f_id g = n then setColumns ?D g else g) = (if f_id g = n then ?new g else g)"
    proof (cases "f_id g = n")
      case True
      with fid have "f_id f = f_id g" by simp
      from id_unique [OF d f g this] have gf: "g = f" by simp
      show ?thesis unfolding gf using row fid by simp
    next
      case False
      then show ?thesis by simp
    qed
  qed
  moreover have "m_image_url ?D = None" by simp
  ultimately show ?thesis by (simp add: service_on_integer update_def)
qed

lemma patch_core:
  assumes d: "distinct (map f_id (folders db1))"
    and r: "(case findFolderById db1 (Finite (of_int n)) of
               Inl e \<Rightarrow> (Inl e, db1)
             | Inr found \<Rightarrow>
                 (case updateFolder db1
                         (found\<lparr> m_image_url := None, m_name := Some nm,
                                 m_image_id := (if truthyInt b then b else m_image_id found),
                                 m_updated_by := Some ub \<rparr>) (Finite (of_int n)) of
                    Inl e \<Rightarrow> (Inl e, db1)
                  | Inr (result, db2) \<Rightarrow> (Inr result, db2))) = (Inr k, db')"
  shows "folders db' =
           map (\<lambda>g. if f_id g = n
                    then g\<lparr> f_name := nm,
                           f_image_id := (case b of Some x \<Rightarrow> if x = 0 then f_image_id g else x
                                          | None \<Rightarrow> f_image_id g),
                           f_updated_by := ub \<rparr>
                    else g) (folders db1)"
proof (cases "fetchById db1 n")
  case None
  then have "findFolderById db1 (Finite (of_int n))
               = Inl (customHttpError NOT_FOUND folder_FOLDER_NOT_FOUND)"
    by (simp add: service_on_integer)
  with r show ?thesis by simp
next
  case (Some found)
  then have ff: "findFolderById db1 (Finite (of_int n)) = Inr found"
    by (simp add: service_on_integer)
  from r show ?thesis
    unfolding ff sum.case updateFolder_after_fetch [OF d Some] by auto
qed

lemma patchFolders_error_keeps_folders:
  "patchFolders uploadImage db req = (Inl e, db') \<Longrightarrow> folders db' = folders db"
proof -
  assume r: "patchFolders uploadImage db req = (Inl e, db')"
  show ?thesis
  proof (cases "truthyNumber (parseInt (params_id req))")
    case False
    from patchFolders_invalid_id [OF False, of uploadImage db] r show ?thesis by simp
  next
    case True
    show ?thesis
    proof (cases "truthyString (body_name req)")
      case False
      from patchFolders_no_name [OF True False, of uploadImage db] r show ?thesis by simp
    next
      case nmT: True
      then obtain nm where nm: "body_name req = Some nm" "nm \<noteq> []"
        by (auto simp: truthyString_def split: option.splits)
      from truthy_parseInt_cases [OF True] show ?thesis
      proof (elim disjE exE conjE)
        fix b assume "parseInt (params_id req) = Infinity b"
        from patchFolders_infinity [OF this nm, where uploadImage = uploadImage and db = db] r show ?thesis by auto
      next
        fix n assume n: "parseInt (params_id req) = Finite (of_int n)" "n \<noteq> 0"
        from r show ?thesis
          unfolding patchFolders_valid [OF n nm]
          by (auto simp: saveImage_folders service_on_integer update_def
                   split: option.splits sum.splits prod.splits if_splits)
      qed
    qed
  qed
qed

lemma frame_columns:
  "map f_id (map (\<lambda>f. if c f then f\<lparr>f_name := a, f_image_id := b f, f_updated_by := u\<rparr> else f) xs)
     = map f_id xs"
  "map f_user_id (map (\<lambda>f. if c f then f\<lparr>f_name := a, f_image_id := b f, f_updated_by := u\<rparr> else f) xs)
     = map f_user_id xs"
  "map f_folder_id (map (\<lambda>f. if c f then f\<lparr>f_name := a, f_image_id := b f, f_updated_by := u\<rparr> else f) xs)
     = map f_folder_id xs"
  "map f_isdeleted (map (\<lambda>f. if c f then f\<lparr>f_name := a, f_image_id := b f, f_updated_by := u\<rparr> else f) xs)
     = map f_isdeleted xs"
  "map f_created_by (map (\<lambda>f. if c f then f\<lparr>f_name := a, f_image_id := b f, f_updated_by := u\<rparr> else f) xs)
     = map f_created_by xs"
  by (induction xs) simp_all

lemma patchFolders_success:
  assumes d: "distinct (map f_id (folders db))"
    and r: "patchFolders uploadImage db req = (Inr k, db')"
  shows "\<exists>n nm. parseInt (params_id req) = Finite (of_int n) \<and> body_name req = Some nm
           \<and> folders db' =
               map (\<lambda>f. if f_id f = n
                        then f\<lparr> f_name := nm,
                               f_image_id := (case req_file req of
                                                Some fl \<Rightarrow> nextId (map i_id (images db))
                                              | None \<Rightarrow> (case body_image_id req of
                                                           Some x \<Rightarrow> if x = 0 then f_image_id f else x
                                                         | None \<Rightarrow> f_image_id f)),
                               f_updated_by := u_username (body_user req) \<rparr>
                        else f) (folders db)"
proof -
  from patchFolders_Inr_valid [OF r] obtain n nm
    where n: "parseInt (params_id req) = Finite (of_int n)" "n \<noteq> 0"
      and nm: "body_name req = Some nm" "nm \<noteq> []"
    by blast
  note v = r [unfolded patchFolders_valid [OF n nm]]
  have "folders db' =
               map (\<lambda>f. if f_id f = n
                        then f\<lparr> f_name := nm,
                               f_image_id := (case req_file req of
                                                Some fl \<Rightarrow> nextId (map i_id (images db))
                                              | None \<Rightarrow> (case body_image_id req of
                                                           Some x \<Rightarrow> if x = 0 then f_image_id f else x
                                                         | None \<Rightarrow> f_image_id f)),
                               f_updated_by := u_username (body_user req) \<rparr>
                        else f) (folders db)"
  proof (cases "req_file req")
    case None
    from v have "(case findFolderById db (Finite (of_int n)) of
               Inl e \<Rightarrow> (Inl e, db)
             | Inr found \<Rightarrow>
                 (case updateFolder db
                         (found\<lparr> m_image_url := None, m_name := Some nm,
                                 m_image_id := (if truthyInt (body_image_id req) then body_image_id req
                                                else m_image_id found),
                                 m_updated_by := Some (u_username (body_user req)) \<rparr>) (Finite (of_int n)) of
                    Inl e \<Rightarrow> (Inl e, db)
                  | Inr (result, db2) \<Rightarrow> (Inr result, db2))) = (Inr k, db')"
      by (simp add: None)
    from patch_core [OF d this] show ?thesis by (simp add: None)
  next
    case (Some fl)
    let ?s = "saveImage db \<lparr> im_url = uploadImage (path fl), im_type = ''user'',
                              im_name = filename fl, im_isdeleted = False \<rparr>
                 (u_username (body_user req))"
    have d1: "distinct (map f_id (folders (snd ?s)))" using d by (simp only: saveImage_folders)
    from v have "(case findFolderById (snd ?s) (Finite (of_int n)) of
               Inl e \<Rightarrow> (Inl e, snd ?s)
             | Inr found \<Rightarrow>
                 (case updateFolder (snd ?s)
                         (found\<lparr> m_image_url := None, m_name := Some nm,
                                 m_image_id := (if truthyInt (Some (i_id (fst ?s))) then Some (i_id (fst ?s))
                                                else m_image_id found),
                                 m_updated_by := Some (u_username (body_user req)) \<rparr>) (Finite (of_int n)) of
                    Inl e \<Rightarrow> (Inl e, snd ?s)
                  | Inr (result, db2) \<Rightarrow> (Inr result, db2))) = (Inr k, db')"
      by (simp add: Some)
    from patch_core [OF d1 this] nextId_positive [of "map i_id (images db)"]
    show ?thesis by (simp add: Some saveImage_folders saveImage_id)
  qed
  with n nm show ?thesis by blast
qed

text \<open>
  C4. \<open>patchFolders\<close> fails with 400 and leaves the store as it is whenever the name
  is missing or empty. A failed patch never changes the folder table. On a folder table
  whose ids are distinct (\<^verbatim>\<open>id\<close> is the key), a successful patch of folder \<open>n\<close>
  changes that row's \<^verbatim>\<open>name\<close>, \<^verbatim>\<open>image_id\<close> and \<^verbatim>\<open>updated_by\<close> and nothing else:
  every other row and every other column, \<^verbatim>\<open>user_id\<close> and the parent \<^verbatim>\<open>folder_id\<close>
  among them, is as before.
\<close>

theorem patchFolders_frame:
  "(\<not> truthyString (body_name req) \<longrightarrow>
      (\<exists>m. patchFolders uploadImage db req = (Inl (customHttpError 400 m), db)))
   \<and> (\<forall>e db'. patchFolders uploadImage db req = (Inl e, db') \<longrightarrow> folders db' = folders db)
   \<and> (distinct (map f_id (folders db)) \<longrightarrow>
       (\<forall>k db'. patchFolders uploadImage db req = (Inr k, db') \<longrightarrow>
          (\<exists>n nm. parseInt (params_id req) = Finite (of_int n) \<and> body_name req = Some nm
             \<and> folders db' =
                 map (\<lambda>f. if f_id f = n
                          then f\<lparr> f_name := nm,
                                 f_image_id := (case req_file req of
                                                  Some fl \<Rightarrow> nextId (map i_id (images db))
                                                | None \<Rightarrow> (case body_image_id req of
                                                             Some x \<Rightarrow> if x = 0 then f_image_id f else x
                                                           | None \<Rightarrow> f_image_id f)),
                                 f_updated_by := u_username (body_user req) \<rparr>
                          else f) (folders db))
          \<and> map f_id (folders db') = map f_id (folders db)
          \<and> map f_user_id (folders db') = map f_user_id (folders db)
          \<and> map f_folder_id (folders db') = map f_folder_id (folders db)
          \<and> map f_isdeleted (folders db') = map f_isdeleted (folders db)
          \<and> map f_created_by (folders db') = map f_created_by (folders db)))"
proof (intro conjI allI impI)
  assume nn: "\<not> truthyString (body_name req)"
  show "\<exists>m. patchFolders uploadImage db req = (Inl (customHttpError 400 m), db)"
  proof (cases "truthyNumber (parseInt (params_id req))")
    case True
    from patchFolders_no_name [OF True nn] show ?thesis by blast
  next
    case False
    from patchFolders_invalid_id [OF False] show ?thesis by blast
  qed
next
  fix e db' assume "patchFolders uploadImage db req = (Inl e, db')"
  then show "folders db' = folders db" by (rule patchFolders_error_keeps_folders)
next
  fix k db'
  assume d: "distinct (map f_id (folders db))"
    and r: "patchFolders uploadImage db req = (Inr k, db')"
  from patchFolders_success [OF d r]
  show "\<exists>n nm. parseInt (params_id req) = Finite (of_int n) \<and> body_name req = Some nm
             \<and> folders db' =
                 map (\<lambda>f. if f_id f = n
                          then f\<lparr> f_name := nm,
                                 f_image_id := (case req_file req of
                                                  Some fl \<Rightarrow> nextId (map i_id (images db))
                                                | None \<Rightarrow> (case body_image_id req of
                                                             Some x \<Rightarrow> if x = 0 then f_image_id f else x
                                                           | None \<Rightarrow> f_image_id f)),
                                 f_updated_by := u_username (body_user req) \<rparr>
                          else f) (folders db)" .
  from patchFolders_success [OF d r] obtain n nm where
    eq: "folders db' =
                 map (\<lambda>f. if f_id f = n
                          then f\<lparr> f_name := nm,
                                 f_image_id := (case req_file req of
                                                  Some fl \<Rightarrow> nextId (map i_id (images db))
                                                | None \<Rightarrow> (case body_image_id req of
                                                             Some x \<Rightarrow> if x = 0 then f_image_id f else x
                                                           | None \<Rightarrow> f_image_id f)),
                                 f_updated_by := u_username (body_user req) \<rparr>
                          else f) (folders db)"
    by blast
  show "map f_id (folders db') = map f_id (folders db)" unfolding eq by (rule frame_columns)
  show "map f_user_id (folders db') = map f_user_id (folders db)" unfolding eq by (rule frame_columns)
  show "map f_folder_id (folders db') = map f_folder_id (folders db)" unfolding eq by (rule frame_columns)
  show "map f_isdeleted (folders db') = map f_isdeleted (folders db)" unfolding eq by (rule frame_columns)
  show "map f_created_by (folders db') = map f_created_by (folders db)" unfolding eq by (rule frame_columns)
qed

theorem patchFolders_frame_witness:
  "(\<exists>m. patchFolders toy_upload db0 (req0\<lparr>params_id := ''2'', body_name := Some []\<rparr>)
          = (Inl (customHttpError 400 m), db0))
   \<and> fst (patchFolders toy_upload db0 (req0\<lparr>params_id := ''2'', body_name := Some ''Pics''\<rparr>)) = Inr 1
   \<and> map f_name (folders (snd (patchFolders toy_upload db0
                                   (req0\<lparr>params_id := ''2'', body_name := Some ''Pics''\<rparr>))))
       = [''Work'', ''Pics'']
   \<and> map f_user_id (folders (snd (patchFolders toy_upload db0
                                      (req0\<lparr>params_id := ''2'', body_name := Some ''Pics''\<rparr>))))
       = [7, 7]
   \<and> map f_folder_id (folders (snd (patchFolders toy_upload db0
                                        (req0\<lparr>params_id := ''2'', body_name := Some ''Pics''\<rparr>))))
       = [None, Some 1]"
proof -
  let ?e = "req0\<lparr>params_id := ''2'', body_name := Some []\<rparr>"
  let ?p = "req0\<lparr>params_id := ''2'', body_name := Some ''Pics''\<rparr>"
  have h1: "\<not> truthyString (body_name ?e)" by (simp add: truthyString_def)
  have h2: "distinct (map f_id (folders db0))" by (simp add: db0_def)
  have f: "fst (patchFolders toy_upload db0 ?p) = Inr 1" by code_simp
  have nmes: "map f_name (folders (snd (patchFolders toy_upload db0 ?p))) = [''Work'', ''Pics'']"
    by code_simp
  from f have h3: "patchFolders toy_upload db0 ?p = (Inr 1, snd (patchFolders toy_upload db0 ?p))"
    by (metis prod.collapse)
  from patchFolders_frame [of ?e toy_upload db0, THEN conjunct1, rule_format, OF h1]
  have 1: "\<exists>m. patchFolders toy_upload db0 ?e = (Inl (customHttpError 400 m), db0)" .
  note fr = patchFolders_frame [of ?p toy_upload db0, THEN conjunct2, THEN conjunct2, rule_format, OF h2 h3]
  from fr have "map f_user_id (folders (snd (patchFolders toy_upload db0 ?p))) = map f_user_id (folders db0)"
    by blast
  then have 2: "map f_user_id (folders (snd (patchFolders toy_upload db0 ?p))) = [7, 7]"
    by (simp add: db0_def)
  from fr have "map f_folder_id (folders (snd (patchFolders toy_upload db0 ?p))) = map f_folder_id (folders db0)"
    by blast
  then have 3: "map f_folder_id (folders (snd (patchFolders toy_upload db0 ?p))) = [None, Some 1]"
    by (simp add: db0_def)
  from 1 f nmes 2 3 show ?thesis by (intro conjI)
qed


subsection \<open>Facts about \<open>postFolders\<close>\<close>

lemma isImage_result:
  "isImage uuid db username =
     (if \<exists>i \<in> set (images db). i_id i = 1 \<and> \<not> i_isdeleted i then (1, db)
      else (nextId (map i_id (images db)),
            db\<lparr>images := images db @
                   [\<lparr> i_id = nextId (map i_id (images db)), i_url = default_image_url,
                      i_type = ''folder'', i_name = uuid, i_isdeleted = False,
                      i_created_by = username, i_updated_by = username \<rparr>]\<rparr>))"
proof (cases "filter (\<lambda>i. i_id i = 1 \<and> i_isdeleted i = False) (images db)")
  case Nil
  then have ne: "\<not> (\<exists>i \<in> set (images db). i_id i = 1 \<and> \<not> i_isdeleted i)"
    by (auto simp: filter_empty_conv)
  from Nil have "isImage uuid db username =
      (nextId (map i_id (images db)),
            db\<lparr>images := images db @
                   [\<lparr> i_id = nextId (map i_id (images db)), i_url = default_image_url,
                      i_type = ''folder'', i_name = uuid, i_isdeleted = False,
                      i_created_by = username, i_updated_by = username \<rparr>]\<rparr>)"
    by (simp add: isImage_def findImage_def saveImage_def Let_def)
  then show ?thesis unfolding if_not_P [OF ne] .
next
  case (Cons a as)
  then have "a \<in> set (filter (\<lambda>i. i_id i = 1 \<and> i_isdeleted i = False) (images db))" by simp
  then have ex: "\<exists>i \<in> set (images db). i_id i = 1 \<and> \<not> i_isdeleted i" by auto
  from Cons have "isImage uuid db username = (1, db)"
    by (simp add: isImage_def findImage_def)
  then show ?thesis unfolding if_P [OF ex] .
qed

lemma isImage_folders: "folders (snd (isImage uuid db username)) = folders db"
  by (cases "\<exists>i \<in> set (images db). i_id i = 1 \<and> \<not> i_isdeleted i")
     (simp_all only: isImage_result if_P if_not_P snd_conv, simp_all)

lemma postFolders_created_row:
  assumes r: "postFolders uploadImage uuid db req = (Inr k, db')"
  shows "\<exists>row. folders db' = folders db @ [row] \<and> f_id row = k
           \<and> k = nextId (map f_id (folders db))
           \<and> f_image_id row =
               fst (isImage uuid
                      (case req_file req of
                         None \<Rightarrow> db
                       | Some fl \<Rightarrow>
                           snd (saveImage db \<lparr> im_url = uploadImage (path fl), im_type = ''folder'',
                                                im_name = filename fl, im_isdeleted = False \<rparr>
                                              (u_username (body_user req))))
                      (u_username (body_user req)))"
proof (cases "req_file req")
  case None
  obtain im db2 where i: "isImage uuid db (u_username (body_user req)) = (im, db2)"
    by (cases "isImage uuid db (u_username (body_user req))")
  then have f2: "folders db2 = folders db" using isImage_folders [of uuid db "u_username (body_user req)"] by simp
  from r show ?thesis
    by (auto simp: postFolders_def Let_def None i f2 addFolders_def create_def
             split: option.splits sum.splits prod.splits)
next
  case (Some fl)
  let ?s = "saveImage db \<lparr> im_url = uploadImage (path fl), im_type = ''folder'',
                            im_name = filename fl, im_isdeleted = False \<rparr>
                          (u_username (body_user req))"
  obtain image db1 where s: "?s = (image, db1)" by (cases ?s)
  then have f1: "folders db1 = folders db" by (auto simp: saveImage_def Let_def)
  obtain im db2 where i: "isImage uuid db1 (u_username (body_user req)) = (im, db2)"
    by (cases "isImage uuid db1 (u_username (body_user req))")
  then have f2: "folders db2 = folders db"
    using isImage_folders [of uuid db1 "u_username (body_user req)"] f1 by simp
  from r show ?thesis
    by (auto simp: postFolders_def Let_def Some s i f2 addFolders_def create_def
             split: option.splits sum.splits prod.splits)
qed


subsection \<open>A deleted folder stays deleted\<close>

text \<open>
  Support for C3 beyond the moment of the delete: whatever creations, patches and
  deletions follow the removal of an existing folder, the reads still do not return it.
  New rows get ids above every id in the table, a patch writes back the id it fetched and
  has no \<^verbatim>\<open>isdeleted\<close> key, and a delete only ever sets the flag.
\<close>

lemma fold_max_upper: "x \<in> set xs \<Longrightarrow> (x::int) \<le> fold max xs a"
proof (induction xs arbitrary: a)
  case Nil
  then show ?case by simp
next
  case (Cons y ys)
  show ?case
  proof (cases "x = y")
    case True
    have "y \<le> max y a" by simp
    also have "\<dots> \<le> fold max ys (max y a)" by (rule fold_max_ge)
    finally show ?thesis using True by simp
  next
    case False
    with Cons.prems have "x \<in> set ys" by simp
    from Cons.IH [OF this] show ?thesis by simp
  qed
qed

lemma nextId_fresh: "x \<in> set ids \<Longrightarrow> x < nextId ids"
  using fold_max_upper [of x ids 0] by (simp add: nextId_def)

lemma hidden_reads:
  assumes h: "hidden n db"
  shows "Some n \<notin> m_id ` set (fetchAllParent db u)
         \<and> Some n \<notin> m_id ` set (fetchAllNested db u p)
         \<and> fetchById db n = None"
proof -
  have none: "\<And>f i. (f, i) \<in> set (leftJoinImages db) \<Longrightarrow> f_id f = n \<Longrightarrow> f_isdeleted f = False \<Longrightarrow> False"
    using h leftJoinImages_fst unfolding hidden_def by blast
  have a: "Some n \<notin> m_id ` set (fetchAllParent db u)"
  proof
    assume "Some n \<in> m_id ` set (fetchAllParent db u)"
    from selected_id [OF this [unfolded fetchAllParent_def]] show False using none by auto
  qed
  have b: "Some n \<notin> m_id ` set (fetchAllNested db u p)"
  proof
    assume "Some n \<in> m_id ` set (fetchAllNested db u p)"
    from selected_id [OF this [unfolded fetchAllNested_def]] show False using none by auto
  qed
  have c: "fetchById db n = None"
    using h unfolding fetchById_None_iff hidden_def by blast
  from a b c show ?thesis by (intro conjI)
qed

lemma hidden_map:
  assumes h: "hidden n db"
    and m: "folders db' = map h (folders db)"
    and i: "\<And>g. f_id (h g) = f_id g"
    and d: "\<And>g. f_isdeleted g \<Longrightarrow> f_isdeleted (h g)"
  shows "hidden n db'"
proof -
  from h obtain f where f: "f \<in> set (folders db)" "f_id f = n"
    unfolding hidden_def by blast
  then have "h f \<in> set (folders db')" "f_id (h f) = n" using m i by simp_all
  then have 1: "n \<in> f_id ` set (folders db')" by force
  have 2: "\<forall>g \<in> set (folders db'). f_id g = n \<longrightarrow> f_isdeleted g"
  proof (intro ballI impI)
    fix g assume g: "g \<in> set (folders db')" "f_id g = n"
    from g(1) m obtain g0 where g0: "g0 \<in> set (folders db)" "g = h g0" by auto
    with g(2) i have "f_id g0 = n" by simp
    with h g0(1) have "f_isdeleted g0" unfolding hidden_def by blast
    from d [OF this] g0(2) show "f_isdeleted g" by simp
  qed
  from 1 2 show ?thesis unfolding hidden_def by blast
qed

lemma hidden_same:
  assumes "hidden n db" and "folders db' = folders db"
  shows "hidden n db'"
  using assms unfolding hidden_def by simp

lemma hidden_append:
  assumes h: "hidden n db" and a: "folders db' = folders db @ [row]"
    and k: "f_id row = nextId (map f_id (folders db))"
  shows "hidden n db'"
proof -
  from h have "n \<in> set (map f_id (folders db))" unfolding hidden_def by simp
  from nextId_fresh [OF this] k have "f_id row \<noteq> n" by simp
  with h a show ?thesis unfolding hidden_def by auto
qed

lemma postFolders_error_keeps_folders:
  assumes r: "postFolders uploadImage uuid db req = (Inl e, db')"
  shows "folders db' = folders db"
proof (cases "req_file req")
  case None
  obtain im db2 where i: "isImage uuid db (u_username (body_user req)) = (im, db2)"
    by (cases "isImage uuid db (u_username (body_user req))")
  then have f2: "folders db2 = folders db"
    using isImage_folders [of uuid db "u_username (body_user req)"] by simp
  from r f2 show ?thesis
    by (auto simp: postFolders_def Let_def None i addFolders_def create_def
             split: option.splits sum.splits prod.splits)
next
  case (Some fl)
  let ?s = "saveImage db \<lparr> im_url = uploadImage (path fl), im_type = ''folder'',
                            im_name = filename fl, im_isdeleted = False \<rparr>
                          (u_username (body_user req))"
  obtain image db1 where s: "?s = (image, db1)" by (cases ?s)
  then have f1: "folders db1 = folders db" by (auto simp: saveImage_def Let_def)
  obtain im db2 where i: "isImage uuid db1 (u_username (body_user req)) = (im, db2)"
    by (cases "isImage uuid db1 (u_username (body_user req))")
  then have f2: "folders db2 = folders db"
    using isImage_folders [of uuid db1 "u_username (body_user req)"] f1 by simp
  from r f2 show ?thesis
    by (auto simp: postFolders_def Let_def Some s i addFolders_def create_def
             split: option.splits sum.splits prod.splits)
qed

lemma postFolders_hidden:
  assumes h: "hidden n db"
  shows "hidden n (snd (postFolders uploadImage uuid db req))"
proof -
  obtain r db' where p: "postFolders uploadImage uuid db req = (r, db')"
    by (cases "postFolders uploadImage uuid db req")
  show ?thesis
  proof (cases r)
    case (Inl e)
    from postFolders_error_keeps_folders [OF p [unfolded Inl]] h show ?thesis
      unfolding p snd_conv by (rule hidden_same [rotated])
  next
    case (Inr k)
    from postFolders_created_row [OF p [unfolded Inr]] obtain row
      where "folders db' = folders db @ [row]" "f_id row = k" "k = nextId (map f_id (folders db))"
      by blast
    then have "folders db' = folders db @ [row]" "f_id row = nextId (map f_id (folders db))"
      by simp_all
    from hidden_append [OF h this] show ?thesis unfolding p snd_conv .
  qed
qed

lemma patch_core_map:
  assumes r: "(case findFolderById db1 (Finite (of_int n)) of
               Inl e \<Rightarrow> (Inl e, db1)
             | Inr found \<Rightarrow>
                 (case updateFolder db1
                         (found\<lparr> m_image_url := None, m_name := Some nm,
                                 m_image_id := b found,
                                 m_updated_by := Some ub \<rparr>) (Finite (of_int n)) of
                    Inl e \<Rightarrow> (Inl e, db1)
                  | Inr (result, db2) \<Rightarrow> (Inr result, db2))) = (Inr k, db')"
  shows "\<exists>h. folders db' = map h (folders db1)
            \<and> (\<forall>g. f_id (h g) = f_id g) \<and> (\<forall>g. f_isdeleted (h g) = f_isdeleted g)"
proof (cases "fetchById db1 n")
  case None
  then have "findFolderById db1 (Finite (of_int n))
               = Inl (customHttpError NOT_FOUND folder_FOLDER_NOT_FOUND)"
    by (simp add: service_on_integer)
  with r show ?thesis by simp
next
  case (Some found)
  then have ff: "findFolderById db1 (Finite (of_int n)) = Inr found"
    by (simp add: service_on_integer)
  from fetchById_Some [OF Some] obtain f i
    where fid: "f_id f = n" and found: "found = selectColumns (f, i)" by blast
  let ?D = "found\<lparr> m_image_url := None, m_name := Some nm, m_image_id := b found,
                   m_updated_by := Some ub \<rparr>"
  let ?h = "\<lambda>g. if f_id g = n then setColumns ?D g else g"
  have mid: "m_id ?D = Some n" and mdel: "m_isdeleted ?D = None"
    using fid by (simp_all add: found selectColumns_def)
  have u: "updateFolder db1 ?D (Finite (of_int n))
        = Inr (length (filter (\<lambda>f. f_id f = n) (folders db1)), db1\<lparr>folders := map ?h (folders db1)\<rparr>)"
    by (simp add: service_on_integer update_def)
  from r have "db' = db1\<lparr>folders := map ?h (folders db1)\<rparr>"
    unfolding ff sum.case u by simp
  then have 1: "folders db' = map ?h (folders db1)" by simp
  have 2: "\<forall>g. f_id (?h g) = f_id g"
  proof
    fix g show "f_id (?h g) = f_id g"
      by (cases "f_id g = n") (simp_all add: setColumns_def mid)
  qed
  have 3: "\<forall>g. f_isdeleted (?h g) = f_isdeleted g"
  proof
    fix g show "f_isdeleted (?h g) = f_isdeleted g"
      by (cases "f_id g = n") (simp_all add: setColumns_def mdel)
  qed
  from 1 2 3 show ?thesis by blast
qed

lemma patchFolders_hidden:
  assumes h: "hidden n db"
  shows "hidden n (snd (patchFolders uploadImage db req))"
proof -
  obtain r db' where p: "patchFolders uploadImage db req = (r, db')"
    by (cases "patchFolders uploadImage db req")
  show ?thesis
  proof (cases r)
    case (Inl e)
    from patchFolders_error_keeps_folders [OF p [unfolded Inl]] h show ?thesis
      unfolding p snd_conv by (rule hidden_same [rotated])
  next
    case (Inr k)
    note ok = p [unfolded Inr]
    from patchFolders_Inr_valid [OF ok] obtain m nm
      where m: "parseInt (params_id req) = Finite (of_int m)" "m \<noteq> 0"
        and nm: "body_name req = Some nm" "nm \<noteq> []"
      by blast
    note v = ok [unfolded patchFolders_valid [OF m nm]]
    have "hidden n db'"
    proof (cases "req_file req")
      case None
      from v have "(case findFolderById db (Finite (of_int m)) of
               Inl e \<Rightarrow> (Inl e, db)
             | Inr found \<Rightarrow>
                 (case updateFolder db
                         (found\<lparr> m_image_url := None, m_name := Some nm,
                                 m_image_id := (if truthyInt (body_image_id req) then body_image_id req
                                                else m_image_id found),
                                 m_updated_by := Some (u_username (body_user req)) \<rparr>) (Finite (of_int m)) of
                    Inl e \<Rightarrow> (Inl e, db)
                  | Inr (result, db2) \<Rightarrow> (Inr result, db2))) = (Inr k, db')"
        by (simp add: None)
      from patch_core_map [OF this] obtain g where
        "folders db' = map g (folders db)" "\<And>x. f_id (g x) = f_id x"
        "\<And>x. f_isdeleted (g x) = f_isdeleted x" by blast
      then show ?thesis using hidden_map [OF h, of db' g] by simp
    next
      case (Some fl)
      let ?s = "saveImage db \<lparr> im_url = uploadImage (path fl), im_type = ''user'',
                              im_name = filename fl, im_isdeleted = False \<rparr>
                   (u_username (body_user req))"
      have h1: "hidden n (snd ?s)" using h saveImage_folders by (rule hidden_same)
      from v have "(case findFolderById (snd ?s) (Finite (of_int m)) of
               Inl e \<Rightarrow> (Inl e, snd ?s)
             | Inr found \<Rightarrow>
                 (case updateFolder (snd ?s)
                         (found\<lparr> m_image_url := None, m_name := Some nm,
                                 m_image_id := (if truthyInt (Some (i_id (fst ?s))) then Some (i_id (fst ?s))
                                                else m_image_id found),
                                 m_updated_by := Some (u_username (body_user req)) \<rparr>) (Finite (of_int m)) of
                    Inl e \<Rightarrow> (Inl e, snd ?s)
                  | Inr (result, db2) \<Rightarrow> (Inr result, db2))) = (Inr k, db')"
        by (simp add: Some)
      from patch_core_map [OF this] obtain g where
        "folders db' = map g (folders (snd ?s))" "\<And>x. f_id (g x) = f_id x"
        "\<And>x. f_isdeleted (g x) = f_isdeleted x" by blast
      then show ?thesis using hidden_map [OF h1, of db' g] by simp
    qed
    then show ?thesis unfolding p snd_conv .
  qed
qed

lemma deleteFolders_folders:
  "folders (snd (deleteFolders db req)) = folders db
   \<or> (\<exists>m. folders (snd (deleteFolders db req))
            = map (\<lambda>f. if f_id f = m then f\<lparr>f_isdeleted := True\<rparr> else f) (folders db))"
  by (auto simp: deleteFolders_def removeFolder_def remove_def Let_def
           split: option.splits sum.splits prod.splits)

lemma deleteFolders_hidden:
  assumes h: "hidden n db"
  shows "hidden n (snd (deleteFolders db req))"
proof -
  from deleteFolders_folders [of db req] show ?thesis
  proof
    assume "folders (snd (deleteFolders db req)) = folders db"
    with h show ?thesis by (rule hidden_same)
  next
    assume "\<exists>m. folders (snd (deleteFolders db req))
            = map (\<lambda>f. if f_id f = m then f\<lparr>f_isdeleted := True\<rparr> else f) (folders db)"
    then obtain m where e: "folders (snd (deleteFolders db req))
            = map (\<lambda>f. if f_id f = m then f\<lparr>f_isdeleted := True\<rparr> else f) (folders db)" ..
    show ?thesis
    proof (rule hidden_map [OF h e])
      fix g show "f_id (if f_id g = m then g\<lparr>f_isdeleted := True\<rparr> else g) = f_id g"
        by (cases "f_id g = m") simp_all
    next
      fix g assume "f_isdeleted g"
      then show "f_isdeleted (if f_id g = m then g\<lparr>f_isdeleted := True\<rparr> else g)"
        by (cases "f_id g = m") simp_all
    qed
  qed
qed

lemma handle_hidden: "hidden n db \<Longrightarrow> hidden n (handle uploadImage db c)"
  by (cases c) (simp_all add: postFolders_hidden patchFolders_hidden deleteFolders_hidden)

lemma run_hidden: "hidden n db \<Longrightarrow> hidden n (foldl (handle uploadImage) db cs)"
  by (induction cs arbitrary: db) (simp_all add: handle_hidden)

lemma remove_hidden:
  assumes "n \<in> f_id ` set (folders db)"
  shows "hidden n (snd (remove db n))"
proof -
  from assms obtain f where f: "f \<in> set (folders db)" "f_id f = n" by auto
  let ?h = "\<lambda>f. if f_id f = n then f\<lparr>f_isdeleted := True\<rparr> else f"
  from f have "?h f \<in> set (folders (snd (remove db n)))" unfolding remove_folders by simp
  moreover from f have "f_id (?h f) = n" by simp
  ultimately have 1: "n \<in> f_id ` set (folders (snd (remove db n)))" by force
  have 2: "\<forall>g \<in> set (folders (snd (remove db n))). f_id g = n \<longrightarrow> f_isdeleted g"
    using remove_flag by blast
  from 1 2 show ?thesis unfolding hidden_def by blast
qed

lemma deleted_folder_stays_hidden:
  assumes "n \<in> f_id ` set (folders db)"
  shows "Some n \<notin> m_id ` set (fetchAllParent (foldl (handle uploadImage) (snd (remove db n)) cs) u)
         \<and> Some n \<notin> m_id ` set (fetchAllNested (foldl (handle uploadImage) (snd (remove db n)) cs) u p)
         \<and> fetchById (foldl (handle uploadImage) (snd (remove db n)) cs) n = None"
  by (rule hidden_reads [OF run_hidden [OF remove_hidden [OF assms]]])


end
